theory Spec2Isabelle
  imports Complex_Main
begin

section \<open>JavaScript values\<close>

text \<open>
  The client is TypeScript, but it inspects several of its inputs at run time
  (\<^verbatim>\<open>typeof x !== "string"\<close>, \<^verbatim>\<open>!x\<close>, \<^verbatim>\<open>x ?? d\<close>), and the gateway's bodies
  are \<^verbatim>\<open>Record<string, unknown>\<close>. Such values are modelled as JavaScript values.
  A finite number is represented by its rational value (every finite double is
  one; \<open>+0\<close> and \<open>-0\<close> are both \<open>Finite 0\<close>, which the code never tells apart).
  A string is a list of characters; the code only concatenates strings, compares
  them and tests them for emptiness, so nothing depends on the alphabet.
  The values are those JSON can carry, with \<^verbatim>\<open>undefined\<close> and the numbers that are
  not finite: there is no function among them, so no property of an object is
  callable.
\<close>

datatype jsnum = NaN | Finite rat | PosInfinity | NegInfinity

datatype jsval =
    JUndefined
  | JNull
  | JBool bool
  | JNum jsnum
  | JStr string
  | JArr "jsval list"
  | JObj "(string \<times> jsval) list"

text \<open>\<^verbatim>\<open>Record<string, unknown>\<close>: a JSON object as an association list.\<close>

type_synonym jsobj = "(string \<times> jsval) list"

text \<open>The operator \<^verbatim>\<open>typeof\<close>.\<close>

fun js_typeof :: "jsval \<Rightarrow> string" where
  "js_typeof JUndefined = ''undefined''"
| "js_typeof JNull = ''object''"
| "js_typeof (JBool b) = ''boolean''"
| "js_typeof (JNum n) = ''number''"
| "js_typeof (JStr s) = ''string''"
| "js_typeof (JArr xs) = ''object''"
| "js_typeof (JObj kvs) = ''object''"

text \<open>Truthiness (\<^verbatim>\<open>ToBoolean\<close>): what \<^verbatim>\<open>!x\<close>, \<^verbatim>\<open>x && y\<close> and \<^verbatim>\<open>x || y\<close> test.\<close>

fun truthy :: "jsval \<Rightarrow> bool" where
  "truthy JUndefined = False"
| "truthy JNull = False"
| "truthy (JBool b) = b"
| "truthy (JNum n) = (n \<noteq> NaN \<and> n \<noteq> Finite 0)"
| "truthy (JStr s) = (s \<noteq> [])"
| "truthy (JArr xs) = True"
| "truthy (JObj kvs) = True"

text \<open>\<^verbatim>\<open>a ?? b\<close>: \<open>b\<close> when \<open>a\<close> is \<^verbatim>\<open>null\<close> or \<^verbatim>\<open>undefined\<close>, else \<open>a\<close>.\<close>

fun nullish :: "jsval \<Rightarrow> bool" where
  "nullish JUndefined = True"
| "nullish JNull = True"
| "nullish v = False"

definition coalesce :: "jsval \<Rightarrow> jsval \<Rightarrow> jsval" where
  "coalesce a b = (if nullish a then b else a)"

text \<open>The own property \<open>k\<close> of an object: the value stored under the key, else \<^verbatim>\<open>undefined\<close>.\<close>

definition get_prop :: "jsobj \<Rightarrow> string \<Rightarrow> jsval" where
  "get_prop obj k = (case map_of obj k of None \<Rightarrow> JUndefined | Some v \<Rightarrow> v)"

text \<open>
  A \<^verbatim>\<open>TypeError\<close> of the engine, by what raised it: the read of a property of
  \<^verbatim>\<open>null\<close> or \<^verbatim>\<open>undefined\<close>, or the conversion to a string of an object that has
  no primitive value.
\<close>

datatype TypeError_cause = Read_of_nullish string | Not_primitive

text \<open>
  The read \<^verbatim>\<open>v["k"]\<close> of any value, for a key \<open>k\<close> that no prototype defines
  (the keys the client reads are \<^verbatim>\<open>message\<close>, \<^verbatim>\<open>orderId\<close>, \<^verbatim>\<open>checkoutUrl\<close>,
  \<^verbatim>\<open>status\<close>, \<^verbatim>\<open>paymentId\<close>, \<^verbatim>\<open>amount\<close>, \<^verbatim>\<open>currency\<close>, \<^verbatim>\<open>paymentDetails\<close>,
  \<^verbatim>\<open>createdAt\<close> and \<^verbatim>\<open>updatedAt\<close>): it throws on \<^verbatim>\<open>null\<close> and \<^verbatim>\<open>undefined\<close>
  (\<open>None\<close>), gives the own property of an object, and \<^verbatim>\<open>undefined\<close> on a
  string, a number, a boolean or an array.
\<close>

fun read_prop :: "jsval \<Rightarrow> string \<Rightarrow> jsval option" where
  "read_prop JUndefined k = None"
| "read_prop JNull k = None"
| "read_prop (JObj kvs) k = Some (get_prop kvs k)"
| "read_prop v k = Some JUndefined"

text \<open>The read \<^verbatim>\<open>v?.["k"]\<close>: \<^verbatim>\<open>undefined\<close> where the plain read throws.\<close>

definition opt_prop :: "jsval \<Rightarrow> string \<Rightarrow> jsval" where
  "opt_prop v k = (case read_prop v k of None \<Rightarrow> JUndefined | Some x \<Rightarrow> x)"

text \<open>
  \<^verbatim>\<open>n <= 0\<close> on a number: false for \<^verbatim>\<open>NaN\<close>, exact on every other double.
\<close>

fun num_le_zero :: "jsnum \<Rightarrow> bool" where
  "num_le_zero NaN = False"
| "num_le_zero (Finite r) = (r \<le> 0)"
| "num_le_zero PosInfinity = False"
| "num_le_zero NegInfinity = True"

fun join_comma :: "string list \<Rightarrow> string" where
  "join_comma [] = []"
| "join_comma [s] = s"
| "join_comma (s # t # ss) = s @ '','' @ join_comma (t # ss)"

text \<open>
  \<^verbatim>\<open>String(v)\<close>; \<open>None\<close> when it throws the \<^verbatim>\<open>TypeError\<close> "cannot convert object
  to primitive value". The decimal rendering of a number
  (\<^verbatim>\<open>Number.prototype.toString\<close>) belongs to the JavaScript engine and is the
  parameter \<open>num\<close>. An object is converted by its \<^verbatim>\<open>toString\<close> method, then by
  \<^verbatim>\<open>valueOf\<close>: an object with no \<^verbatim>\<open>toString\<close> key of its own inherits the method
  that answers \<^verbatim>\<open>[object Object]\<close>; one with such a key (as \<^verbatim>\<open>JSON.parse\<close> makes
  of \<^verbatim>\<open>{"toString": 1}\<close>) has a \<^verbatim>\<open>toString\<close> that cannot be called, and its
  \<^verbatim>\<open>valueOf\<close>, its own or inherited, gives no primitive value either, so the
  conversion throws. An array renders its elements joined by commas, \<^verbatim>\<open>null\<close> and
  \<^verbatim>\<open>undefined\<close> elements as the empty string, and throws when an element does.
\<close>

fun js_String :: "(jsnum \<Rightarrow> string) \<Rightarrow> jsval \<Rightarrow> string option" where
  "js_String num JUndefined = Some ''undefined''"
| "js_String num JNull = Some ''null''"
| "js_String num (JBool b) = Some (if b then ''true'' else ''false'')"
| "js_String num (JNum n) = Some (num n)"
| "js_String num (JStr s) = Some s"
| "js_String num (JArr xs) =
     map_option join_comma
       (those (map (\<lambda>v. if nullish v then Some [] else js_String num v) xs))"
| "js_String num (JObj kvs) =
     (if ''toString'' \<in> fst ` set kvs then None else Some ''[object Object]'')"


section \<open>The error taxonomy (errors.ts)\<close>

datatype OMPayErrorCode =
    AUTHENTICATION_ERROR
  | VALIDATION_ERROR
  | API_ERROR
  | NETWORK_ERROR
  | SIGNATURE_MISMATCH
  | TIMEOUT_ERROR
  | UNKNOWN_ERROR

text \<open>
  What the HTTP client resolves with, and what a failed call throws. Of the thrown
  error, the fields \<^verbatim>\<open>fromAxiosError\<close> reads: \<^verbatim>\<open>error.response\<close> (absent when no
  response was received), \<^verbatim>\<open>error.code\<close>, whether \<^verbatim>\<open>error.request\<close> is set, and
  \<^verbatim>\<open>error.message\<close>. The body of a response is declared
  \<^verbatim>\<open>Record<string, unknown>\<close>, which nothing checks: it is whatever the HTTP library
  made of the answer, an object, a string (an empty or non-JSON answer), any
  other JSON value.
\<close>

record AxiosResponse =
  resp_status :: int
  resp_data :: jsval

record AxiosError =
  ax_response :: "AxiosResponse option"
  ax_code :: "string option"
  ax_request :: bool
  ax_message :: string

text \<open>
  \<^verbatim>\<open>OMPayErrorDetails\<close> and \<^verbatim>\<open>OMPayError\<close>. An optional field that is left out
  or \<^verbatim>\<open>undefined\<close> is \<open>None\<close>.
\<close>

record OMPayErrorDetails =
  code :: OMPayErrorCode
  message :: string
  statusCode :: "int option"
  originalError :: "AxiosError option"
  response :: "jsval option"

record OMPayError = OMPayErrorDetails +
  error_name :: string

text \<open>
  \<^verbatim>\<open>x ?? undefined\<close> on an optional field: a value that is \<^verbatim>\<open>null\<close> becomes
  \<^verbatim>\<open>undefined\<close>.
\<close>

definition or_undefined :: "jsval option \<Rightarrow> jsval option" where
  "or_undefined x =
     (case x of None \<Rightarrow> None | Some v \<Rightarrow> if nullish v then None else Some v)"

text \<open>
  The constructor. A status code is a number and the original error an object,
  on which \<^verbatim>\<open>?? undefined\<close> is the identity.
\<close>

definition new_OMPayError :: "OMPayErrorDetails \<Rightarrow> OMPayError" where
  "new_OMPayError details =
     \<lparr> code = code details,
       message = message details,
       statusCode = statusCode details,
       originalError = originalError details,
       response = or_undefined (response details),
       error_name = ''OMPayError'' \<rparr>"

text \<open>A details literal that gives only \<^verbatim>\<open>code\<close> and \<^verbatim>\<open>message\<close>.\<close>

definition details :: "OMPayErrorCode \<Rightarrow> string \<Rightarrow> OMPayErrorDetails" where
  "details c m =
     \<lparr> code = c, message = m, statusCode = None, originalError = None, response = None \<rparr>"

text \<open>
  \<^verbatim>\<open>OMPayError.fromAxiosError\<close>, branch by branch: \<open>Inr\<close> the error it returns,
  \<open>Inl\<close> the \<^verbatim>\<open>TypeError\<close> it throws when \<^verbatim>\<open>String(...)\<close> does, before any error
  is constructed. The status code is a number; the template
  \<^verbatim>\<open>`API error: ${statusCode}`\<close> renders it with the engine's \<open>num\<close>.
\<close>

definition fromAxiosError ::
  "(jsnum \<Rightarrow> string) \<Rightarrow> AxiosError \<Rightarrow> TypeError_cause + OMPayError" where
  "fromAxiosError num error =
     (case ax_response error of
        Some resp \<Rightarrow>
          (let statusCode = resp_status resp;
               responseData = resp_data resp
           in if statusCode = 401 \<or> statusCode = 403 then
                Inr (new_OMPayError
                  \<lparr> code = AUTHENTICATION_ERROR,
                    message = ''Authentication failed. Please check your client ID and secret.'',
                    statusCode = Some statusCode,
                    originalError = Some error,
                    response = Some responseData \<rparr>)
              else if statusCode = 400 \<or> statusCode = 422 then
                (case js_String num
                        (coalesce (opt_prop responseData ''message'')
                           (JStr ''Validation error occurred'')) of
                   None \<Rightarrow> Inl Not_primitive
                 | Some m \<Rightarrow>
                     Inr (new_OMPayError
                       \<lparr> code = VALIDATION_ERROR,
                         message = m,
                         statusCode = Some statusCode,
                         originalError = Some error,
                         response = Some responseData \<rparr>))
              else
                (case js_String num
                        (coalesce (opt_prop responseData ''message'')
                           (JStr (''API error: '' @ num (Finite (of_int statusCode))))) of
                   None \<Rightarrow> Inl Not_primitive
                 | Some m \<Rightarrow>
                     Inr (new_OMPayError
                       \<lparr> code = API_ERROR,
                         message = m,
                         statusCode = Some statusCode,
                         originalError = Some error,
                         response = Some responseData \<rparr>)))
      | None \<Rightarrow>
          if ax_code error = Some ''ECONNABORTED'' then
            Inr (new_OMPayError
              ((details TIMEOUT_ERROR ''Request timed out'')
                 \<lparr> originalError := Some error \<rparr>))
          else if ax_request error then
            Inr (new_OMPayError
              ((details NETWORK_ERROR ''Network error. Please check your internet connection.'')
                 \<lparr> originalError := Some error \<rparr>))
          else
            Inr (new_OMPayError
              ((details UNKNOWN_ERROR
                  (if ax_message error \<noteq> [] then ax_message error
                   else ''An unknown error occurred''))
                 \<lparr> originalError := Some error \<rparr>)))"

definition signatureMismatch :: OMPayError where
  "signatureMismatch =
     new_OMPayError
       (details SIGNATURE_MISMATCH
          ''Payment signature verification failed. The signature does not match.'')"


section \<open>The data model (types.ts)\<close>

text \<open>
  A field the code checks with \<^verbatim>\<open>typeof\<close> or for truthiness is a JavaScript value
  (a caller can pass anything); an optional field that the code only defaults or
  spreads has its declared type, \<open>None\<close> when it is left out. The type
  \<^verbatim>\<open>Environment\<close> is carried by strings, so that a value outside
  \<^verbatim>\<open>"sandbox" | "production"\<close> can be written.
\<close>

record OMPayConfig =
  clientId :: jsval
  clientSecret :: jsval
  environment :: "string option"
  timeout :: "jsnum option"

record CustomerInfo =
  phone :: jsval
  email :: jsval
  name :: jsval

record CreateCheckoutRequest =
  amount :: jsval
  currency :: jsval
  uiMode :: "string option"
  redirectType :: "string option"
  customer :: "CustomerInfo option"
  orderReference :: "string option"
  metadata :: "jsobj option"

record CreateCheckoutResponse =
  cc_orderId :: string
  checkoutUrl :: jsval
  cc_status :: string
  cc_data :: jsval

text \<open>
  The fields of an order status are assigned from the body with type assertions
  (\<^verbatim>\<open>data["status"] as OrderStatusResponse["status"]\<close>), which do nothing at run
  time: they hold whatever value the body has.
\<close>

record OrderStatusResponse =
  os_orderId :: string
  os_status :: jsval
  os_paymentId :: jsval
  os_amount :: jsval
  os_currency :: jsval
  paymentDetails :: jsval
  createdAt :: jsval
  updatedAt :: jsval
  os_data :: jsval

record SignaturePayload =
  orderId :: string
  paymentId :: string

text \<open>\<^verbatim>\<open>PaymentStatus\<close>, as the values a status field may take.\<close>

definition PaymentStatus :: "jsval list" where
  "PaymentStatus = [JStr ''success'', JStr ''failed'', JStr ''pending'', JStr ''cancelled'']"


section \<open>The client (client.ts)\<close>

text \<open>
  What the client takes from outside the repository, as parameters: Node's
  \<^verbatim>\<open>createHmac("sha256", key).update(data).digest("hex")\<close>, the engine's rendering of
  numbers, the HTTP library (a call on an instance either resolves with a response
  or throws), and the message the engine gives a \<^verbatim>\<open>TypeError\<close> it throws.
\<close>

datatype http_call = Post string jsobj | Get string jsobj

record AxiosRequestConfig =
  baseURL :: "string option"
  axios_timeout :: jsnum
  headers :: "(string \<times> string) list"
  auth :: "string \<times> string"

record runtime =
  createHmac_sha256_hex :: "string \<Rightarrow> string \<Rightarrow> string"
  Number_toString :: "jsnum \<Rightarrow> string"
  axios_send :: "AxiosRequestConfig \<Rightarrow> http_call \<Rightarrow> AxiosError + AxiosResponse"
  TypeError_message :: "TypeError_cause \<Rightarrow> string"

definition API_URLS :: "(string \<times> string) list" where
  "API_URLS =
     [(''sandbox'', ''https://api.uat.gateway.ompay.com''),
      (''production'', ''https://api.gateway.ompay.com'')]"

definition DEFAULT_TIMEOUT :: jsnum where
  "DEFAULT_TIMEOUT = Finite 30000"

text \<open>
  The private fields of the class. The HTTP instance is given by the configuration
  \<^verbatim>\<open>axios.create\<close> was called with.
\<close>

record OMPayClient =
  httpClient :: AxiosRequestConfig
  this_clientId :: string
  this_clientSecret :: string
  this_environment :: string

text \<open>A word between apostrophes, as the messages write it.\<close>

definition quoted :: "string \<Rightarrow> string" where
  "quoted s = CHR 0x27 # s @ [CHR 0x27]"

text \<open>\<^verbatim>\<open>validateConfig\<close>: the three checks, in the order of the source.\<close>

definition validateConfig :: "OMPayConfig \<Rightarrow> OMPayError + unit" where
  "validateConfig config =
     (if \<not> truthy (clientId config) \<or> js_typeof (clientId config) \<noteq> ''string'' then
        Inl (new_OMPayError
          (details VALIDATION_ERROR ''clientId is required and must be a string''))
      else if \<not> truthy (clientSecret config) \<or> js_typeof (clientSecret config) \<noteq> ''string'' then
        Inl (new_OMPayError
          (details VALIDATION_ERROR ''clientSecret is required and must be a string''))
      else if (case environment config of
                 None \<Rightarrow> False
               | Some e \<Rightarrow> e \<noteq> [] \<and> e \<notin> set [''sandbox'', ''production'']) then
        Inl (new_OMPayError
          (details VALIDATION_ERROR
             (''environment must be either '' @ quoted ''sandbox'' @ '' or '' @
              quoted ''production'')))
      else Inr ())"

text \<open>
  The read of a field that \<^verbatim>\<open>validateConfig\<close> has checked to be a string
  (lemma \<open>validateConfig_strings\<close> below): the other equation is never used on a
  configuration that passed.
\<close>

fun as_string :: "jsval \<Rightarrow> string" where
  "as_string (JStr s) = s"
| "as_string v = []"

text \<open>
  The constructor: validation, then the fields, then \<^verbatim>\<open>axios.create\<close>. It is not
  given the runtime: it sends nothing.
\<close>

definition new_OMPayClient :: "OMPayConfig \<Rightarrow> OMPayError + OMPayClient" where
  "new_OMPayClient config =
     (case validateConfig config of
        Inl e \<Rightarrow> Inl e
      | Inr u \<Rightarrow>
          (let cid = as_string (clientId config);
               secret = as_string (clientSecret config);
               env = (case environment config of None \<Rightarrow> ''sandbox'' | Some e \<Rightarrow> e)
           in Inr \<lparr> httpClient =
                      \<lparr> baseURL = map_of API_URLS env,
                        axios_timeout =
                          (case timeout config of None \<Rightarrow> DEFAULT_TIMEOUT | Some t \<Rightarrow> t),
                        headers = [(''Content-Type'', ''application/json'')],
                        auth = (cid, secret) \<rparr>,
                    this_clientId = cid,
                    this_clientSecret = secret,
                    this_environment = env \<rparr>))"

definition getClientId :: "OMPayClient \<Rightarrow> string" where
  "getClientId this = this_clientId this"

definition getEnvironment :: "OMPayClient \<Rightarrow> string" where
  "getEnvironment this = this_environment this"

text \<open>\<^verbatim>\<open>API_URLS[this.environment]\<close>: \<open>None\<close> is \<^verbatim>\<open>undefined\<close>.\<close>

definition getBaseUrl :: "OMPayClient \<Rightarrow> string option" where
  "getBaseUrl this = map_of API_URLS (this_environment this)"


subsection \<open>createCheckout\<close>

text \<open>
  \<^verbatim>\<open>request.amount <= 0\<close>, which \<^verbatim>\<open>||\<close> evaluates only when the amount is a number.
\<close>

fun number_le_zero :: "jsval \<Rightarrow> bool" where
  "number_le_zero (JNum n) = num_le_zero n"
| "number_le_zero v = False"

text \<open>
  \<^verbatim>\<open>validateCheckoutRequest\<close>: the four checks, in the order of the source. The
  source returns nothing; the model returns the customer object that the third
  check found present, which is the one \<^verbatim>\<open>createCheckout\<close> reads afterwards.
\<close>

definition validateCheckoutRequest :: "CreateCheckoutRequest \<Rightarrow> OMPayError + CustomerInfo" where
  "validateCheckoutRequest request =
     (if js_typeof (amount request) \<noteq> ''number'' \<or> number_le_zero (amount request) then
        Inl (new_OMPayError (details VALIDATION_ERROR ''amount must be a positive number''))
      else if \<not> truthy (currency request) \<or> js_typeof (currency request) \<noteq> ''string'' then
        Inl (new_OMPayError
          (details VALIDATION_ERROR ''currency is required and must be a string''))
      else
        (case customer request of
           None \<Rightarrow>
             Inl (new_OMPayError (details VALIDATION_ERROR ''customer information is required''))
         | Some c \<Rightarrow>
             if \<not> truthy (phone c) \<or> \<not> truthy (email c) \<or> \<not> truthy (name c) then
               Inl (new_OMPayError
                 (details VALIDATION_ERROR ''customer phone, email, and name are required''))
             else Inr c))"

text \<open>
  The object literal of \<^verbatim>\<open>createCheckout\<close>. \<^verbatim>\<open>...(x && { k: x })\<close> adds the key
  when \<open>x\<close> is truthy and nothing otherwise (the spread of \<^verbatim>\<open>undefined\<close> and of
  the empty string has no property).
\<close>

definition checkout_payload :: "CreateCheckoutRequest \<Rightarrow> CustomerInfo \<Rightarrow> jsobj" where
  "checkout_payload request c =
     [(''amount'', amount request),
      (''currency'', currency request),
      (''uiMode'', JStr (case uiMode request of None \<Rightarrow> ''checkout'' | Some m \<Rightarrow> m)),
      (''redirectType'',
         JStr (case redirectType request of None \<Rightarrow> ''redirect'' | Some t \<Rightarrow> t)),
      (''phone'', phone c),
      (''email'', email c),
      (''name'', name c)]
     @ (case orderReference request of
          None \<Rightarrow> []
        | Some r \<Rightarrow> if r \<noteq> [] then [(''orderReference'', JStr r)] else [])
     @ (case metadata request of
          None \<Rightarrow> []
        | Some m \<Rightarrow> [(''metadata'', JObj m)])"

text \<open>
  What an operation throws: an \<^verbatim>\<open>OMPayError\<close>, or a \<^verbatim>\<open>TypeError\<close> of the engine that
  nothing caught.
\<close>

datatype thrown = Thrown_OMPayError OMPayError | Thrown_TypeError TypeError_cause

text \<open>
  What a \<^verbatim>\<open>catch\<close> clause hands to \<^verbatim>\<open>fromAxiosError\<close> when the \<^verbatim>\<open>try\<close> block threw a
  \<^verbatim>\<open>TypeError\<close>: an error that has a message and none of the fields of an HTTP
  failure.
\<close>

definition TypeError :: "string \<Rightarrow> AxiosError" where
  "TypeError msg =
     \<lparr> ax_response = None, ax_code = None, ax_request = False, ax_message = msg \<rparr>"

text \<open>
  The \<^verbatim>\<open>catch\<close> clause of both operations, \<^verbatim>\<open>throw OMPayError.fromAxiosError(error)\<close>:
  it throws the error that \<^verbatim>\<open>fromAxiosError\<close> returns, or the \<^verbatim>\<open>TypeError\<close> that
  \<^verbatim>\<open>fromAxiosError\<close> throws.
\<close>

definition catch_clause :: "runtime \<Rightarrow> AxiosError \<Rightarrow> thrown" where
  "catch_clause rt error =
     (case fromAxiosError (Number_toString rt) error of
        Inl cause \<Rightarrow> Thrown_TypeError cause
      | Inr e \<Rightarrow> Thrown_OMPayError e)"

text \<open>
  The object literal that \<^verbatim>\<open>createCheckout\<close> returns, from the body of the
  response: \<open>Inl\<close> the \<^verbatim>\<open>TypeError\<close> that the first read throws on a body that is
  \<^verbatim>\<open>null\<close> or \<^verbatim>\<open>undefined\<close>, or that \<^verbatim>\<open>String(...)\<close> throws. Once the first read
  has passed the later reads cannot throw.
\<close>

definition checkout_response ::
  "(jsnum \<Rightarrow> string) \<Rightarrow> jsval \<Rightarrow> TypeError_cause + CreateCheckoutResponse" where
  "checkout_response num d =
     (case read_prop d ''orderId'' of
        None \<Rightarrow> Inl (Read_of_nullish ''orderId'')
      | Some v \<Rightarrow>
          (case js_String num (coalesce v (JStr [])) of
             None \<Rightarrow> Inl Not_primitive
           | Some oid \<Rightarrow>
               (case js_String num (coalesce (opt_prop d ''status'') (JStr [])) of
                  None \<Rightarrow> Inl Not_primitive
                | Some st \<Rightarrow>
                    Inr \<lparr> cc_orderId = oid,
                          checkoutUrl = opt_prop d ''checkoutUrl'',
                          cc_status = st,
                          cc_data = d \<rparr>)))"

text \<open>
  An operation that may call the gateway returns the calls it made, in order, and
  its outcome: \<open>Inl\<close> what it throws, \<open>Inr\<close> the value it resolves with. The
  \<^verbatim>\<open>try\<close> block holds the call and the mapping of the response, so a
  \<^verbatim>\<open>TypeError\<close> of the mapping goes through the \<^verbatim>\<open>catch\<close> clause too.
\<close>

definition createCheckout ::
  "runtime \<Rightarrow> OMPayClient \<Rightarrow> CreateCheckoutRequest \<Rightarrow>
     http_call list \<times> (thrown + CreateCheckoutResponse)" where
  "createCheckout rt this request =
     (case validateCheckoutRequest request of
        Inl e \<Rightarrow> ([], Inl (Thrown_OMPayError e))
      | Inr c \<Rightarrow>
          (let call = Post ''/nac/api/v1/pg/orders/create-checkout'' (checkout_payload request c)
           in ([call],
               case axios_send rt (httpClient this) call of
                 Inl error \<Rightarrow> Inl (catch_clause rt error)
               | Inr r \<Rightarrow>
                   (case checkout_response (Number_toString rt) (resp_data r) of
                      Inl cause \<Rightarrow>
                        Inl (catch_clause rt (TypeError (TypeError_message rt cause)))
                    | Inr result \<Rightarrow> Inr result))))"


subsection \<open>checkStatus\<close>

text \<open>
  The object literal that \<^verbatim>\<open>checkStatus\<close> returns, \<open>oid\<close> being the order id
  asked for. The fields after \<^verbatim>\<open>orderId\<close> are plain reads.
\<close>

definition status_response ::
  "(jsnum \<Rightarrow> string) \<Rightarrow> jsval \<Rightarrow> jsval \<Rightarrow> TypeError_cause + OrderStatusResponse" where
  "status_response num oid d =
     (case read_prop d ''orderId'' of
        None \<Rightarrow> Inl (Read_of_nullish ''orderId'')
      | Some v \<Rightarrow>
          (case js_String num (coalesce v oid) of
             None \<Rightarrow> Inl Not_primitive
           | Some s \<Rightarrow>
               Inr \<lparr> os_orderId = s,
                     os_status = opt_prop d ''status'',
                     os_paymentId = opt_prop d ''paymentId'',
                     os_amount = opt_prop d ''amount'',
                     os_currency = opt_prop d ''currency'',
                     paymentDetails = opt_prop d ''paymentDetails'',
                     createdAt = opt_prop d ''createdAt'',
                     updatedAt = opt_prop d ''updatedAt'',
                     os_data = d \<rparr>))"

definition checkStatus ::
  "runtime \<Rightarrow> OMPayClient \<Rightarrow> jsval \<Rightarrow> http_call list \<times> (thrown + OrderStatusResponse)" where
  "checkStatus rt this oid =
     (if \<not> truthy oid \<or> js_typeof oid \<noteq> ''string'' then
        ([], Inl (Thrown_OMPayError
                    (new_OMPayError
                       (details VALIDATION_ERROR ''orderId is required and must be a string''))))
      else
        (let call = Get ''/nac/api/v1/pg/orders/check-status'' [(''orderId'', oid)]
         in ([call],
             case axios_send rt (httpClient this) call of
               Inl error \<Rightarrow> Inl (catch_clause rt error)
             | Inr r \<Rightarrow>
                 (case status_response (Number_toString rt) oid (resp_data r) of
                    Inl cause \<Rightarrow>
                      Inl (catch_clause rt (TypeError (TypeError_message rt cause)))
                  | Inr result \<Rightarrow> Inr result))))"


subsection \<open>Signature verification\<close>

text \<open>
  \<^verbatim>\<open>verifySignature\<close> throws a validation error or returns a boolean; it calls
  nothing but the keyed hash. \<^verbatim>\<open>expectedSignature === signature\<close> compares a string
  with the value passed, without conversion.
\<close>

text \<open>The template \<^verbatim>\<open>`${payload.orderId}/${payload.paymentId}`\<close>.\<close>

definition dataToSign :: "SignaturePayload \<Rightarrow> string" where
  "dataToSign payload = orderId payload @ ''/'' @ paymentId payload"

definition verifySignature ::
  "runtime \<Rightarrow> OMPayClient \<Rightarrow> SignaturePayload \<Rightarrow> jsval \<Rightarrow> OMPayError + bool" where
  "verifySignature rt this payload signature =
     (if orderId payload = [] \<or> paymentId payload = [] then
        Inl (new_OMPayError
          (details VALIDATION_ERROR
             ''orderId and paymentId are required for signature verification''))
      else if \<not> truthy signature \<or> js_typeof signature \<noteq> ''string'' then
        Inl (new_OMPayError
          (details VALIDATION_ERROR ''signature is required and must be a string''))
      else
        (let expectedSignature =
               createHmac_sha256_hex rt (this_clientSecret this) (dataToSign payload)
         in Inr (JStr expectedSignature = signature)))"

definition verifySignatureOrThrow ::
  "runtime \<Rightarrow> OMPayClient \<Rightarrow> SignaturePayload \<Rightarrow> jsval \<Rightarrow> OMPayError + unit" where
  "verifySignatureOrThrow rt this payload signature =
     (case verifySignature rt this payload signature of
        Inl e \<Rightarrow> Inl e
      | Inr ok \<Rightarrow> if \<not> ok then Inl signatureMismatch else Inr ())"


section \<open>Sample values\<close>

text \<open>
  Concrete values at which the theorems below are applied. The theorems hold for
  every runtime; the sample runtime stands in for Node and the gateway with
  functions small enough to evaluate: \<open>sample_hmac\<close> is not HMAC-SHA256, only a
  function of the key and the message that returns 64 lowercase hexadecimal
  digits, as a SHA-256 digest in hexadecimal has; \<open>sample_number\<close> renders the
  few numbers the examples use.
\<close>

definition hex_digit :: "nat \<Rightarrow> char" where
  "hex_digit n = ''0123456789abcdef'' ! (n mod 16)"

definition hex_byte :: "char \<Rightarrow> string" where
  "hex_byte c = [hex_digit (of_char c div 16), hex_digit (of_char c)]"

definition sample_hmac :: "string \<Rightarrow> string \<Rightarrow> string" where
  "sample_hmac key msg =
     take 64 (concat (map hex_byte (key @ msg)) @ replicate 64 (CHR ''0''))"

definition sample_number :: "jsnum \<Rightarrow> string" where
  "sample_number n =
     (if n = Finite 500 then ''500''
      else if n = Finite 404 then ''404''
      else if n = Finite 100 then ''100''
      else if n = PosInfinity then ''Infinity''
      else if n = NegInfinity then ''-Infinity''
      else ''NaN'')"

text \<open>A runtime whose gateway gives the same outcome to every call.\<close>

definition sample_runtime :: "AxiosError + AxiosResponse \<Rightarrow> runtime" where
  "sample_runtime outcome =
     \<lparr> createHmac_sha256_hex = sample_hmac,
       Number_toString = sample_number,
       axios_send = (\<lambda>cfg call. outcome),
       TypeError_message =
         (\<lambda>cause. case cause of
            Read_of_nullish k \<Rightarrow> ''Cannot read properties of null''
          | Not_primitive \<Rightarrow> ''Cannot convert object to primitive value'') \<rparr>"

definition sample_config :: OMPayConfig where
  "sample_config =
     \<lparr> clientId = JStr ''c1'', clientSecret = JStr ''s1'',
       environment = Some ''sandbox'', timeout = None \<rparr>"

definition sample_client :: OMPayClient where
  "sample_client =
     \<lparr> httpClient =
         \<lparr> baseURL = Some ''https://api.uat.gateway.ompay.com'',
           axios_timeout = Finite 30000,
           headers = [(''Content-Type'', ''application/json'')],
           auth = (''c1'', ''s1'') \<rparr>,
       this_clientId = ''c1'',
       this_clientSecret = ''s1'',
       this_environment = ''sandbox'' \<rparr>"

definition sample_customer :: CustomerInfo where
  "sample_customer =
     \<lparr> phone = JStr ''+96891234567'', email = JStr ''a@b.com'', name = JStr ''A'' \<rparr>"

definition sample_request :: CreateCheckoutRequest where
  "sample_request =
     \<lparr> amount = JNum (Finite 100), currency = JStr ''OMR'',
       uiMode = None, redirectType = None,
       customer = Some sample_customer,
       orderReference = None, metadata = None \<rparr>"

definition ok_body :: "jsval \<Rightarrow> AxiosError + AxiosResponse" where
  "ok_body body = Inr \<lparr> resp_status = 200, resp_data = body \<rparr>"

definition ok_response :: "jsobj \<Rightarrow> AxiosError + AxiosResponse" where
  "ok_response body = ok_body (JObj body)"

text \<open>Failed calls, as the HTTP library reports them.\<close>

definition http_failure :: "int \<Rightarrow> jsval \<Rightarrow> AxiosError" where
  "http_failure status body =
     \<lparr> ax_response = Some \<lparr> resp_status = status, resp_data = body \<rparr>,
       ax_code = Some ''ERR_BAD_RESPONSE'', ax_request = True,
       ax_message = ''Request failed'' \<rparr>"

definition timeout_failure :: AxiosError where
  "timeout_failure =
     \<lparr> ax_response = None, ax_code = Some ''ECONNABORTED'', ax_request = True,
       ax_message = ''timeout of 30000ms exceeded'' \<rparr>"

definition network_failure :: AxiosError where
  "network_failure =
     \<lparr> ax_response = None, ax_code = Some ''ERR_NETWORK'', ax_request = True,
       ax_message = ''Network Error'' \<rparr>"


section \<open>Properties\<close>

subsection \<open>Auxiliary facts\<close>

lemma code_new_details [simp]:
  "code (new_OMPayError (details c m)) = c"
  "message (new_OMPayError (details c m)) = m"
  by (simp_all add: new_OMPayError_def details_def)

lemma sample_hmac_length: "length (sample_hmac key msg) = 64"
  by (simp add: sample_hmac_def)

lemma sample_hmac_value:
  "sample_hmac ''s1'' ''o1/p1'' = ''73316f312f703100000000000000000000000000000000000000000000000000''"
  by code_simp

lemma sample_hmac_collision_value:
  "sample_hmac ''s1'' ''a/b/c'' =
     ''7331612f622f6300000000000000000000000000000000000000000000000000''"
  by code_simp

lemma verifySignature_valid_args:
  assumes "orderId payload \<noteq> []" and "paymentId payload \<noteq> []" and "sig \<noteq> []"
  shows "verifySignature rt this payload (JStr sig) =
           Inr (createHmac_sha256_hex rt (this_clientSecret this) (dataToSign payload) = sig)"
  using assms by (simp add: verifySignature_def)

lemma signatureMismatch_fields:
  "code signatureMismatch = SIGNATURE_MISMATCH"
  "message signatureMismatch =
     ''Payment signature verification failed. The signature does not match.''"
  "statusCode signatureMismatch = None"
  "response signatureMismatch = None"
  "originalError signatureMismatch = None"
  by (simp_all add: signatureMismatch_def new_OMPayError_def details_def or_undefined_def)

lemma validateConfig_strings:
  assumes "validateConfig config = Inr u"
  shows "clientId config = JStr (as_string (clientId config))"
    and "as_string (clientId config) \<noteq> []"
    and "clientSecret config = JStr (as_string (clientSecret config))"
    and "as_string (clientSecret config) \<noteq> []"
  using assms
  by (cases "clientId config"; cases "clientSecret config";
      simp add: validateConfig_def split: if_splits)+

lemma validateConfig_timeout:
  "validateConfig (config\<lparr>timeout := t\<rparr>) = validateConfig config"
  by (simp add: validateConfig_def)

lemma createCheckout_invalid:
  "validateCheckoutRequest request = Inl e \<Longrightarrow>
     createCheckout rt this request = ([], Inl (Thrown_OMPayError e))"
  by (simp add: createCheckout_def)

subsection \<open>Signature verification\<close>

text \<open>
  Claim C1 (signature round trip). For every client secret and every non-empty
  \<open>oid\<close> and \<open>pid\<close>, let \<open>d\<close> be the keyed hash of \<open>oid/pid\<close> under the secret, in
  hexadecimal. Then \<^verbatim>\<open>verifySignature\<close> returns true on \<open>d\<close>, and false on every
  non-empty string other than \<open>d\<close>, in particular on \<open>d\<close> with one character
  replaced by a different one. The digest is not empty: a SHA-256 digest in
  hexadecimal has 64 characters, whatever the key and the message.
\<close>

theorem verifySignature_round_trip:
  assumes oid: "oid \<noteq> []" and pid: "pid \<noteq> []"
    and digest: "d = createHmac_sha256_hex rt (this_clientSecret this) (oid @ ''/'' @ pid)"
    and nonempty: "d \<noteq> []"
  shows "verifySignature rt this \<lparr>orderId = oid, paymentId = pid\<rparr> (JStr d) = Inr True
       \<and> (\<forall>sig. sig \<noteq> [] \<and> sig \<noteq> d \<longrightarrow>
            verifySignature rt this \<lparr>orderId = oid, paymentId = pid\<rparr> (JStr sig) = Inr False)
       \<and> (\<forall>i c. i < length d \<and> c \<noteq> d ! i \<longrightarrow>
            verifySignature rt this \<lparr>orderId = oid, paymentId = pid\<rparr> (JStr (d[i := c])) = Inr False)"
proof -
  let ?p = "\<lparr>orderId = oid, paymentId = pid\<rparr>"
  have msg: "dataToSign ?p = oid @ ''/'' @ pid"
    by (simp add: dataToSign_def)
  have eval: "verifySignature rt this ?p (JStr sig) = Inr (d = sig)" if "sig \<noteq> []" for sig
    using verifySignature_valid_args [of ?p sig rt this] oid pid that
    by (simp add: msg digest)
  have same: "verifySignature rt this ?p (JStr d) = Inr True"
    using eval [OF nonempty] by simp
  have other: "verifySignature rt this ?p (JStr sig) = Inr False"
    if "sig \<noteq> []" and "sig \<noteq> d" for sig
    using eval [OF that(1)] that(2) by auto
  have mutated: "verifySignature rt this ?p (JStr (d[i := c])) = Inr False"
    if "i < length d" and "c \<noteq> d ! i" for i c
  proof -
    have "(d[i := c]) ! i = c"
      using that(1) by simp
    with that(2) have "d[i := c] \<noteq> d"
      by metis
    moreover have "d[i := c] \<noteq> []"
      using that(1) by auto
    ultimately show ?thesis
      by (rule other [rotated])
  qed
  from same other mutated show ?thesis
    by blast
qed

theorem verifySignature_round_trip_witness:
  "verifySignature (sample_runtime (ok_response [])) sample_client
     \<lparr>orderId = ''o1'', paymentId = ''p1''\<rparr>
     (JStr ''73316f312f703100000000000000000000000000000000000000000000000000'') = Inr True
   \<and> verifySignature (sample_runtime (ok_response [])) sample_client
     \<lparr>orderId = ''o1'', paymentId = ''p1''\<rparr> (JStr ''invalid-signature'') = Inr False
   \<and> verifySignature (sample_runtime (ok_response [])) sample_client
     \<lparr>orderId = ''o1'', paymentId = ''p1''\<rparr>
     (JStr (''73316f312f703100000000000000000000000000000000000000000000000000''[0 := CHR ''8''])) = Inr False"
proof -
  define d where "d = ''73316f312f703100000000000000000000000000000000000000000000000000''"
  define rt where "rt = sample_runtime (ok_response [])"
  have digest: "d = createHmac_sha256_hex rt (this_clientSecret sample_client) (''o1'' @ ''/'' @ ''p1'')"
    by (simp add: rt_def d_def sample_runtime_def sample_client_def sample_hmac_value)
  have ne: "d \<noteq> []"
    by (simp add: d_def)
  note all = verifySignature_round_trip [of "''o1''" "''p1''" d rt sample_client, OF _ _ digest ne]
  have one: "verifySignature rt sample_client \<lparr>orderId = ''o1'', paymentId = ''p1''\<rparr> (JStr d) = Inr True"
    using all by simp
  have "''invalid-signature'' \<noteq> d"
    by (simp add: d_def)
  then have two: "verifySignature rt sample_client \<lparr>orderId = ''o1'', paymentId = ''p1''\<rparr>
      (JStr ''invalid-signature'') = Inr False"
    using all [THEN conjunct2, THEN conjunct1, THEN spec, of "''invalid-signature''"] by simp
  have "0 < length d" "CHR ''8'' \<noteq> d ! 0"
    by (simp_all add: d_def)
  then have three: "verifySignature rt sample_client \<lparr>orderId = ''o1'', paymentId = ''p1''\<rparr>
      (JStr (d[0 := CHR ''8''])) = Inr False"
    using all [THEN conjunct2, THEN conjunct2, THEN spec, THEN spec, of 0 "CHR ''8''"] by simp
  from one two three show ?thesis
    unfolding rt_def d_def by (intro conjI)
qed

text \<open>
  Claim C3. On a payload with non-empty \<open>orderId\<close> and \<open>paymentId\<close> and a non-empty
  signature string, \<^verbatim>\<open>verifySignature\<close> returns a boolean, and
  \<^verbatim>\<open>verifySignatureOrThrow\<close> returns normally exactly when that boolean is true;
  when it is false it throws the one error \<open>signatureMismatch\<close>, whose code is
  \<open>SIGNATURE_MISMATCH\<close>, whose message is fixed, and which has no status code, no
  response body and no original error: nothing in it comes from the payload, the
  signature or the secret.
\<close>

theorem verifySignatureOrThrow_iff:
  assumes "orderId payload \<noteq> []" and "paymentId payload \<noteq> []" and "sig \<noteq> []"
  shows "(\<exists>b. verifySignature rt this payload (JStr sig) = Inr b)
       \<and> ((verifySignatureOrThrow rt this payload (JStr sig) = Inr ()) =
            (verifySignature rt this payload (JStr sig) = Inr True))
       \<and> (verifySignature rt this payload (JStr sig) = Inr False \<longrightarrow>
            verifySignatureOrThrow rt this payload (JStr sig) = Inl signatureMismatch)
       \<and> code signatureMismatch = SIGNATURE_MISMATCH
       \<and> message signatureMismatch =
            ''Payment signature verification failed. The signature does not match.''
       \<and> statusCode signatureMismatch = None
       \<and> response signatureMismatch = None
       \<and> originalError signatureMismatch = None"
proof -
  obtain b where b: "verifySignature rt this payload (JStr sig) = Inr b"
    using verifySignature_valid_args [OF assms] by blast
  then have "verifySignatureOrThrow rt this payload (JStr sig) =
      (if b then Inr () else Inl signatureMismatch)"
    by (simp add: verifySignatureOrThrow_def)
  with b show ?thesis
    by (cases b) (auto simp: signatureMismatch_fields)
qed

theorem verifySignatureOrThrow_iff_witness:
  "verifySignatureOrThrow (sample_runtime (ok_response [])) sample_client
     \<lparr>orderId = ''o1'', paymentId = ''p1''\<rparr>
     (JStr ''73316f312f703100000000000000000000000000000000000000000000000000'') = Inr ()
   \<and> verifySignatureOrThrow (sample_runtime (ok_response [])) sample_client
     \<lparr>orderId = ''o1'', paymentId = ''p1''\<rparr> (JStr ''invalid-signature'') =
       Inl signatureMismatch"
proof -
  define d where "d = ''73316f312f703100000000000000000000000000000000000000000000000000''"
  define rt where "rt = sample_runtime (ok_response [])"
  define p where "p = \<lparr>orderId = ''o1'', paymentId = ''p1''\<rparr>"
  have digest: "createHmac_sha256_hex rt (this_clientSecret sample_client) (dataToSign p) = d"
    by (simp add: rt_def d_def p_def dataToSign_def sample_runtime_def sample_client_def
        sample_hmac_value)
  have fields: "orderId p \<noteq> []" "paymentId p \<noteq> []"
    by (simp_all add: p_def)
  have "d \<noteq> []"
    by (simp add: d_def)
  then have good: "verifySignature rt sample_client p (JStr d) = Inr True"
    using fields by (simp add: verifySignature_def digest)
  have "''invalid-signature'' \<noteq> d"
    by (simp add: d_def)
  then have bad: "verifySignature rt sample_client p (JStr ''invalid-signature'') = Inr False"
    using fields by (simp add: verifySignature_def digest)
  have one: "verifySignatureOrThrow rt sample_client p (JStr d) = Inr ()"
    using verifySignatureOrThrow_iff [OF fields \<open>d \<noteq> []\<close>, of rt sample_client] good
    by simp
  have two: "verifySignatureOrThrow rt sample_client p (JStr ''invalid-signature'') =
      Inl signatureMismatch"
    using verifySignatureOrThrow_iff [OF fields, of "''invalid-signature''" rt sample_client] bad
    by simp
  from one two show ?thesis
    unfolding rt_def d_def p_def by (intro conjI)
qed

text \<open>
  Claim C8 (collision of the canonical message). Two payloads with non-empty
  fields whose strings \<open>orderId/paymentId\<close> are equal get the same outcome from
  \<^verbatim>\<open>verifySignature\<close> for every signature, and for every non-empty signature
  string that outcome is a boolean, the same on both: the separator is not
  escaped. The payloads \<open>(a, b/c)\<close> and \<open>(a/b, c)\<close> are such a pair; the digest of
  \<open>a/b/c\<close> is accepted on both, and refused on \<open>(a, c)\<close>.
\<close>

theorem verifySignature_collision:
  assumes "orderId p1 \<noteq> []" and "paymentId p1 \<noteq> []"
    and "orderId p2 \<noteq> []" and "paymentId p2 \<noteq> []"
    and "orderId p1 @ ''/'' @ paymentId p1 = orderId p2 @ ''/'' @ paymentId p2"
  shows "verifySignature rt this p1 signature = verifySignature rt this p2 signature
       \<and> (\<forall>sig. sig \<noteq> [] \<longrightarrow>
            (\<exists>b. verifySignature rt this p1 (JStr sig) = Inr b
               \<and> verifySignature rt this p2 (JStr sig) = Inr b))"
proof -
  have same: "dataToSign p1 = dataToSign p2"
    using assms(5) by (simp add: dataToSign_def)
  have outcome: "verifySignature rt this p1 s = verifySignature rt this p2 s" for s
    using assms(1-4) same by (simp add: verifySignature_def)
  have boolean: "\<exists>b. verifySignature rt this p1 (JStr sig) = Inr b
      \<and> verifySignature rt this p2 (JStr sig) = Inr b" if "sig \<noteq> []" for sig
  proof -
    have "verifySignature rt this p1 (JStr sig) =
        Inr (createHmac_sha256_hex rt (this_clientSecret this) (dataToSign p1) = sig)"
      using assms(1,2) that by (rule verifySignature_valid_args)
    moreover from this have "verifySignature rt this p2 (JStr sig) =
        Inr (createHmac_sha256_hex rt (this_clientSecret this) (dataToSign p1) = sig)"
      using outcome [of "JStr sig"] by simp
    ultimately show ?thesis
      by blast
  qed
  from outcome boolean show ?thesis
    by blast
qed

theorem verifySignature_collision_witness:
  "verifySignature (sample_runtime (ok_response [])) sample_client
       \<lparr>orderId = ''a'', paymentId = ''b/c''\<rparr>
       (JStr ''7331612f622f6300000000000000000000000000000000000000000000000000'') = Inr True
   \<and> verifySignature (sample_runtime (ok_response [])) sample_client
       \<lparr>orderId = ''a/b'', paymentId = ''c''\<rparr>
       (JStr ''7331612f622f6300000000000000000000000000000000000000000000000000'') = Inr True
   \<and> verifySignature (sample_runtime (ok_response [])) sample_client
       \<lparr>orderId = ''a'', paymentId = ''b/c''\<rparr> (JStr ''00'') = Inr False
   \<and> verifySignature (sample_runtime (ok_response [])) sample_client
       \<lparr>orderId = ''a/b'', paymentId = ''c''\<rparr> (JStr ''00'') = Inr False
   \<and> \<lparr>orderId = ''a'', paymentId = ''b/c''\<rparr> \<noteq> \<lparr>orderId = ''a/b'', paymentId = ''c''\<rparr>
   \<and> verifySignature (sample_runtime (ok_response [])) sample_client
       \<lparr>orderId = ''a'', paymentId = ''c''\<rparr>
       (JStr ''7331612f622f6300000000000000000000000000000000000000000000000000'') = Inr False"
proof -
  define d where "d = ''7331612f622f6300000000000000000000000000000000000000000000000000''"
  define rt where "rt = sample_runtime (ok_response [])"
  define p1 where "p1 = \<lparr>orderId = ''a'', paymentId = ''b/c''\<rparr>"
  define p2 where "p2 = \<lparr>orderId = ''a/b'', paymentId = ''c''\<rparr>"
  have fields: "orderId p1 \<noteq> []" "paymentId p1 \<noteq> []" "orderId p2 \<noteq> []" "paymentId p2 \<noteq> []"
    "orderId p1 @ ''/'' @ paymentId p1 = orderId p2 @ ''/'' @ paymentId p2"
    by (simp_all add: p1_def p2_def)
  note collide = verifySignature_collision [OF fields, of rt sample_client, THEN conjunct2,
      rule_format]
  have digest: "createHmac_sha256_hex rt (this_clientSecret sample_client) (dataToSign p1) = d"
    by (simp add: rt_def d_def p1_def dataToSign_def sample_runtime_def sample_client_def
        sample_hmac_collision_value)
  have d: "d \<noteq> []" and z: "''00'' \<noteq> d"
    by (simp_all add: d_def)
  have acc1: "verifySignature rt sample_client p1 (JStr d) = Inr True"
    using fields(1,2) d by (simp add: verifySignature_def digest)
  from collide [OF d] acc1 have acc2: "verifySignature rt sample_client p2 (JStr d) = Inr True"
    by auto
  have rej1: "verifySignature rt sample_client p1 (JStr ''00'') = Inr False"
    using fields(1,2) z by (simp add: verifySignature_def digest)
  from collide [of "''00''"] rej1
  have rej2: "verifySignature rt sample_client p2 (JStr ''00'') = Inr False"
    by auto
  have distinct: "p1 \<noteq> p2"
    by (simp add: p1_def p2_def)
  have "sample_hmac ''s1'' ''a/c'' \<noteq> d"
    unfolding d_def by code_simp
  then have other: "verifySignature rt sample_client \<lparr>orderId = ''a'', paymentId = ''c''\<rparr>
      (JStr d) = Inr False"
    using d
    by (simp add: verifySignature_def dataToSign_def rt_def sample_runtime_def
        sample_client_def)
  from acc1 acc2 rej1 rej2 distinct other show ?thesis
    unfolding rt_def d_def p1_def p2_def by (intro conjI)
qed

text \<open>
  Claim C10. The result of \<^verbatim>\<open>verifySignature\<close> depends on the client only through
  its secret: two clients with the same secret, and in particular two clients
  constructed from configurations with the same \<^verbatim>\<open>clientSecret\<close> and any
  \<^verbatim>\<open>clientId\<close>, \<^verbatim>\<open>environment\<close> and \<^verbatim>\<open>timeout\<close>, return equal results on every
  payload and signature. The method assigns no field and the keyed hash is a
  function of the key and the message, so the result is a function of the
  secret, the payload and the signature: a repeated call is the same term.
\<close>

theorem verifySignature_secret_only:
  "(this_clientSecret c1 = this_clientSecret c2 \<longrightarrow>
      verifySignature rt c1 payload signature = verifySignature rt c2 payload signature)
   \<and> (new_OMPayClient config1 = Inr c1 \<and> new_OMPayClient config2 = Inr c2
        \<and> clientSecret config1 = clientSecret config2 \<longrightarrow>
      verifySignature rt c1 payload signature = verifySignature rt c2 payload signature)"
proof -
  have field: "verifySignature rt c1 payload signature = verifySignature rt c2 payload signature"
    if "this_clientSecret c1 = this_clientSecret c2"
    using that by (simp add: verifySignature_def)
  have secret: "this_clientSecret c = as_string (clientSecret config)"
    if "new_OMPayClient config = Inr c" for config c
    using that by (auto simp: new_OMPayClient_def Let_def split: sum.splits)
  show ?thesis
    using field secret by metis
qed

theorem verifySignature_secret_only_witness:
  "new_OMPayClient sample_config = Inr sample_client
   \<and> new_OMPayClient
        \<lparr> clientId = JStr ''c2'', clientSecret = JStr ''s1'',
          environment = Some ''production'', timeout = Some (Finite 5) \<rparr> =
       Inr \<lparr> httpClient =
               \<lparr> baseURL = Some ''https://api.gateway.ompay.com'',
                 axios_timeout = Finite 5,
                 headers = [(''Content-Type'', ''application/json'')],
                 auth = (''c2'', ''s1'') \<rparr>,
             this_clientId = ''c2'', this_clientSecret = ''s1'',
             this_environment = ''production'' \<rparr>
   \<and> verifySignature (sample_runtime (ok_response [])) sample_client
        \<lparr>orderId = ''o1'', paymentId = ''p1''\<rparr> (JStr ''00'') =
       verifySignature (sample_runtime (ok_response []))
         \<lparr> httpClient =
             \<lparr> baseURL = Some ''https://api.gateway.ompay.com'',
               axios_timeout = Finite 5,
               headers = [(''Content-Type'', ''application/json'')],
               auth = (''c2'', ''s1'') \<rparr>,
           this_clientId = ''c2'', this_clientSecret = ''s1'',
           this_environment = ''production'' \<rparr>
         \<lparr>orderId = ''o1'', paymentId = ''p1''\<rparr> (JStr ''00'')"
proof -
  define config2 where "config2 =
    \<lparr> clientId = JStr ''c2'', clientSecret = JStr ''s1'',
      environment = Some ''production'', timeout = Some (Finite 5) \<rparr>"
  define c2 where "c2 =
    \<lparr> httpClient =
        \<lparr> baseURL = Some ''https://api.gateway.ompay.com'',
          axios_timeout = Finite 5,
          headers = [(''Content-Type'', ''application/json'')],
          auth = (''c2'', ''s1'') \<rparr>,
      this_clientId = ''c2'', this_clientSecret = ''s1'',
      this_environment = ''production'' \<rparr>"
  have one: "new_OMPayClient sample_config = Inr sample_client"
    by (simp add: new_OMPayClient_def validateConfig_def sample_config_def sample_client_def
        API_URLS_def DEFAULT_TIMEOUT_def Let_def)
  have two: "new_OMPayClient config2 = Inr c2"
    by (simp add: new_OMPayClient_def validateConfig_def config2_def c2_def API_URLS_def Let_def)
  have same: "clientSecret sample_config = clientSecret config2"
    by (simp add: sample_config_def config2_def)
  have three: "verifySignature (sample_runtime (ok_response [])) sample_client
        \<lparr>orderId = ''o1'', paymentId = ''p1''\<rparr> (JStr ''00'') =
      verifySignature (sample_runtime (ok_response [])) c2
        \<lparr>orderId = ''o1'', paymentId = ''p1''\<rparr> (JStr ''00'')"
    using verifySignature_secret_only
      [of sample_client c2 _ _ _ sample_config config2] one two same
    by blast
  from one two three show ?thesis
    unfolding config2_def c2_def by (intro conjI)
qed

subsection \<open>Construction\<close>

text \<open>
  Claim C9. \<^verbatim>\<open>validateConfig\<close> does not read \<^verbatim>\<open>timeout\<close>: for a configuration with
  a non-empty string \<^verbatim>\<open>clientId\<close> and \<^verbatim>\<open>clientSecret\<close> and an environment that is
  left out, \<open>sandbox\<close> or \<open>production\<close>, construction succeeds with any supplied
  timeout \<open>t\<close> (zero, negative, \<^verbatim>\<open>NaN\<close>), and the HTTP instance is created with
  exactly \<open>t\<close>.
\<close>

theorem timeout_not_validated:
  assumes "clientId config = JStr cid" and "cid \<noteq> []"
    and "clientSecret config = JStr secret" and "secret \<noteq> []"
    and "environment config = None \<or> environment config = Some ''sandbox''
         \<or> environment config = Some ''production''"
  shows "\<exists>c. new_OMPayClient (config\<lparr>timeout := Some t\<rparr>) = Inr c
           \<and> axios_timeout (httpClient c) = t"
proof -
  have "validateConfig config = Inr ()"
    using assms by (auto simp: validateConfig_def)
  then have "validateConfig (config\<lparr>timeout := Some t\<rparr>) = Inr ()"
    by (simp add: validateConfig_timeout)
  then show ?thesis
    by (simp add: new_OMPayClient_def Let_def)
qed

theorem timeout_not_validated_witness:
  "new_OMPayClient (sample_config\<lparr>timeout := Some (Finite 0)\<rparr>) =
     Inr (sample_client\<lparr>httpClient := (httpClient sample_client)\<lparr>axios_timeout := Finite 0\<rparr>\<rparr>)
   \<and> new_OMPayClient (sample_config\<lparr>timeout := Some (Finite (- 1))\<rparr>) =
     Inr (sample_client\<lparr>httpClient := (httpClient sample_client)\<lparr>axios_timeout := Finite (- 1)\<rparr>\<rparr>)"
proof -
  have cfg: "clientId sample_config = JStr ''c1''" "''c1'' \<noteq> []"
    "clientSecret sample_config = JStr ''s1''" "''s1'' \<noteq> []"
    "environment sample_config = None \<or> environment sample_config = Some ''sandbox''
       \<or> environment sample_config = Some ''production''"
    by (simp_all add: sample_config_def)
  have shape: "new_OMPayClient (sample_config\<lparr>timeout := Some t\<rparr>) = Inr c \<Longrightarrow>
      c = sample_client\<lparr>httpClient := (httpClient sample_client)\<lparr>axios_timeout := t\<rparr>\<rparr>" for t c
    by (auto simp: new_OMPayClient_def validateConfig_def sample_config_def sample_client_def
        API_URLS_def Let_def split: if_splits)
  from timeout_not_validated [OF cfg, of "Finite 0"] shape
  have zero: "new_OMPayClient (sample_config\<lparr>timeout := Some (Finite 0)\<rparr>) =
     Inr (sample_client\<lparr>httpClient := (httpClient sample_client)\<lparr>axios_timeout := Finite 0\<rparr>\<rparr>)"
    by blast
  from timeout_not_validated [OF cfg, of "Finite (- 1)"] shape
  have neg: "new_OMPayClient (sample_config\<lparr>timeout := Some (Finite (- 1))\<rparr>) =
     Inr (sample_client\<lparr>httpClient := (httpClient sample_client)\<lparr>axios_timeout := Finite (- 1)\<rparr>\<rparr>)"
    by blast
  from zero neg show ?thesis
    by (intro conjI)
qed

text \<open>
  Claim C7 says that construction fails with a \<open>VALIDATION_ERROR\<close> for every
  environment value other than \<open>sandbox\<close> and \<open>production\<close>. The code departs from
  it at the empty string. The check is
  \<^verbatim>\<open>config.environment && !["sandbox", "production"].includes(config.environment)\<close>:
  the empty string is falsy and passes it, \<^verbatim>\<open>??\<close> then keeps it (it replaces only
  \<^verbatim>\<open>null\<close> and \<^verbatim>\<open>undefined\<close>), and the client is built with the environment \<open>""\<close>
  and the base URL \<^verbatim>\<open>undefined\<close>, which neither getter's declared type admits.
  The message of the check (environment must be either sandbox or production)
  and the two checks before it, which refuse an empty \<^verbatim>\<open>clientId\<close> and
  \<^verbatim>\<open>clientSecret\<close>, say what the check is for.
\<close>

theorem new_OMPayClient_empty_environment:
  "new_OMPayClient
     \<lparr> clientId = JStr ''c1'', clientSecret = JStr ''s1'',
       environment = Some [], timeout = None \<rparr> =
     Inr \<lparr> httpClient =
             \<lparr> baseURL = None,
               axios_timeout = Finite 30000,
               headers = [(''Content-Type'', ''application/json'')],
               auth = (''c1'', ''s1'') \<rparr>,
           this_clientId = ''c1'', this_clientSecret = ''s1'', this_environment = [] \<rparr>
   \<and> getEnvironment
        \<lparr> httpClient =
            \<lparr> baseURL = None,
              axios_timeout = Finite 30000,
              headers = [(''Content-Type'', ''application/json'')],
              auth = (''c1'', ''s1'') \<rparr>,
          this_clientId = ''c1'', this_clientSecret = ''s1'', this_environment = [] \<rparr> = []
   \<and> getBaseUrl
        \<lparr> httpClient =
            \<lparr> baseURL = None,
              axios_timeout = Finite 30000,
              headers = [(''Content-Type'', ''application/json'')],
              auth = (''c1'', ''s1'') \<rparr>,
          this_clientId = ''c1'', this_clientSecret = ''s1'', this_environment = [] \<rparr> = None"
  by (simp add: new_OMPayClient_def validateConfig_def API_URLS_def DEFAULT_TIMEOUT_def Let_def
      getEnvironment_def getBaseUrl_def)

text \<open>
  On the other configurations construction does what is claimed: with a non-empty
  string \<^verbatim>\<open>clientId\<close> and \<^verbatim>\<open>clientSecret\<close> and an environment left out, \<open>sandbox\<close>
  or \<open>production\<close> it succeeds (the constructor sends nothing: it is not given the
  runtime), the environment is \<open>sandbox\<close> when left out, and the getters return
  the environment and its URL; with a \<^verbatim>\<open>clientId\<close> or \<^verbatim>\<open>clientSecret\<close> that is
  missing, empty or not a string, or an environment that is a non-empty string
  other than the two, it fails with a \<open>VALIDATION_ERROR\<close>.
\<close>

lemma new_OMPayClient_construction:
  "(clientId config = JStr cid \<and> cid \<noteq> [] \<and> clientSecret config = JStr secret \<and> secret \<noteq> []
      \<and> (environment config = None \<or> environment config = Some ''sandbox''
           \<or> environment config = Some ''production'') \<longrightarrow>
      (\<exists>c. new_OMPayClient config = Inr c
         \<and> getEnvironment c = (case environment config of None \<Rightarrow> ''sandbox'' | Some e \<Rightarrow> e)
         \<and> getBaseUrl c =
             Some (if getEnvironment c = ''sandbox'' then ''https://api.uat.gateway.ompay.com''
                   else ''https://api.gateway.ompay.com'')
         \<and> baseURL (httpClient c) = getBaseUrl c
         \<and> getClientId c = cid))
   \<and> (\<not> truthy (clientId config) \<or> js_typeof (clientId config) \<noteq> ''string''
      \<or> \<not> truthy (clientSecret config) \<or> js_typeof (clientSecret config) \<noteq> ''string''
      \<or> (\<exists>e. environment config = Some e \<and> e \<noteq> [] \<and> e \<noteq> ''sandbox'' \<and> e \<noteq> ''production'') \<longrightarrow>
      (\<exists>err. new_OMPayClient config = Inl err \<and> code err = VALIDATION_ERROR))"
proof (intro conjI impI)
  assume ok: "clientId config = JStr cid \<and> cid \<noteq> [] \<and> clientSecret config = JStr secret
      \<and> secret \<noteq> []
      \<and> (environment config = None \<or> environment config = Some ''sandbox''
           \<or> environment config = Some ''production'')"
  then have valid: "validateConfig config = Inr ()"
    by (auto simp: validateConfig_def)
  from ok have env: "(case environment config of None \<Rightarrow> ''sandbox'' | Some e \<Rightarrow> e) = ''sandbox''
      \<or> (case environment config of None \<Rightarrow> ''sandbox'' | Some e \<Rightarrow> e) = ''production''"
    by auto
  from env show "\<exists>c. new_OMPayClient config = Inr c
         \<and> getEnvironment c = (case environment config of None \<Rightarrow> ''sandbox'' | Some e \<Rightarrow> e)
         \<and> getBaseUrl c =
             Some (if getEnvironment c = ''sandbox'' then ''https://api.uat.gateway.ompay.com''
                   else ''https://api.gateway.ompay.com'')
         \<and> baseURL (httpClient c) = getBaseUrl c
         \<and> getClientId c = cid"
    using ok
    by (auto simp: new_OMPayClient_def valid Let_def getEnvironment_def getBaseUrl_def
        getClientId_def API_URLS_def)
next
  assume bad: "\<not> truthy (clientId config) \<or> js_typeof (clientId config) \<noteq> ''string''
      \<or> \<not> truthy (clientSecret config) \<or> js_typeof (clientSecret config) \<noteq> ''string''
      \<or> (\<exists>e. environment config = Some e \<and> e \<noteq> [] \<and> e \<noteq> ''sandbox'' \<and> e \<noteq> ''production'')"
  then have "\<exists>err. validateConfig config = Inl err \<and> code err = VALIDATION_ERROR"
    by (auto simp: validateConfig_def)
  then show "\<exists>err. new_OMPayClient config = Inl err \<and> code err = VALIDATION_ERROR"
    by (auto simp: new_OMPayClient_def)
qed

lemma new_OMPayClient_examples:
  "new_OMPayClient sample_config = Inr sample_client
   \<and> getEnvironment sample_client = ''sandbox''
   \<and> getBaseUrl sample_client = Some ''https://api.uat.gateway.ompay.com''
   \<and> new_OMPayClient (sample_config\<lparr>environment := None\<rparr>) = Inr sample_client
   \<and> (\<exists>err. new_OMPayClient (sample_config\<lparr>clientId := JUndefined\<rparr>) = Inl err
         \<and> code err = VALIDATION_ERROR)
   \<and> (\<exists>err. new_OMPayClient (sample_config\<lparr>clientSecret := JStr []\<rparr>) = Inl err
         \<and> code err = VALIDATION_ERROR)
   \<and> (\<exists>err. new_OMPayClient (sample_config\<lparr>environment := Some ''invalid''\<rparr>) = Inl err
         \<and> code err = VALIDATION_ERROR)"
proof -
  have shape: "new_OMPayClient sample_config = Inr sample_client"
    "new_OMPayClient (sample_config\<lparr>environment := None\<rparr>) = Inr sample_client"
    by (simp_all add: new_OMPayClient_def validateConfig_def sample_config_def
        sample_client_def API_URLS_def DEFAULT_TIMEOUT_def Let_def)
  have ok: "clientId sample_config = JStr ''c1'' \<and> ''c1'' \<noteq> []
      \<and> clientSecret sample_config = JStr ''s1'' \<and> ''s1'' \<noteq> []
      \<and> (environment sample_config = None \<or> environment sample_config = Some ''sandbox''
           \<or> environment sample_config = Some ''production'')"
    by (simp add: sample_config_def)
  from new_OMPayClient_construction [of sample_config "''c1''" "''s1''", THEN conjunct1] ok
  obtain c where c: "new_OMPayClient sample_config = Inr c"
    and env: "getEnvironment c =
      (case environment sample_config of None \<Rightarrow> ''sandbox'' | Some e \<Rightarrow> e)"
    and url: "getBaseUrl c =
      Some (if getEnvironment c = ''sandbox'' then ''https://api.uat.gateway.ompay.com''
            else ''https://api.gateway.ompay.com'')"
    by blast
  from c shape(1) have "c = sample_client"
    by simp
  with env url have getters: "getEnvironment sample_client = ''sandbox''"
    "getBaseUrl sample_client = Some ''https://api.uat.gateway.ompay.com''"
    by (simp_all add: sample_config_def)
  have no_id: "\<exists>err. new_OMPayClient (sample_config\<lparr>clientId := JUndefined\<rparr>) = Inl err
         \<and> code err = VALIDATION_ERROR"
    using new_OMPayClient_construction
      [of "sample_config\<lparr>clientId := JUndefined\<rparr>", THEN conjunct2]
    by simp
  have no_secret: "\<exists>err. new_OMPayClient (sample_config\<lparr>clientSecret := JStr []\<rparr>) = Inl err
         \<and> code err = VALIDATION_ERROR"
    using new_OMPayClient_construction
      [of "sample_config\<lparr>clientSecret := JStr []\<rparr>", THEN conjunct2]
    by simp
  have bad_env: "\<exists>err. new_OMPayClient (sample_config\<lparr>environment := Some ''invalid''\<rparr>) = Inl err
         \<and> code err = VALIDATION_ERROR"
    using new_OMPayClient_construction
      [of "sample_config\<lparr>environment := Some ''invalid''\<rparr>", THEN conjunct2]
    by simp
  from shape getters no_id no_secret bad_env show ?thesis
    by (intro conjI)
qed

subsection \<open>Error classification\<close>

text \<open>
  Claim C2 says that every failed call yields a typed error whose code the
  decision tree gives. The code departs from it on a response whose status is
  not 401 or 403 and whose body has for \<^verbatim>\<open>message\<close> an object with a \<^verbatim>\<open>toString\<close>
  key of its own, as \<^verbatim>\<open>JSON.parse\<close> makes of \<^verbatim>\<open>{"message": {"toString": 1}}\<close>:
  \<^verbatim>\<open>String(responseData?.["message"] ?? ...)\<close> throws a \<^verbatim>\<open>TypeError\<close> before any
  \<^verbatim>\<open>OMPayError\<close> is built. \<^verbatim>\<open>fromAxiosError\<close> is called in the \<^verbatim>\<open>catch\<close> clause of the
  operations, so nothing catches that error: \<^verbatim>\<open>createCheckout\<close> throws the
  \<^verbatim>\<open>TypeError\<close> where a \<open>VALIDATION_ERROR\<close> is claimed. (The same \<^verbatim>\<open>String(...)\<close>
  thrown inside the \<^verbatim>\<open>try\<close> block, by the mapping of a response, is caught and
  becomes an \<open>UNKNOWN_ERROR\<close>.)
\<close>

theorem fromAxiosError_unprintable_message:
  "fromAxiosError sample_number
     (http_failure 400 (JObj [(''message'', JObj [(''toString'', JNum (Finite 1))])])) =
     Inl Not_primitive
   \<and> fromAxiosError sample_number
     (http_failure 500 (JObj [(''message'', JObj [(''toString'', JNum (Finite 1))])])) =
     Inl Not_primitive
   \<and> createCheckout
     (sample_runtime
        (Inl (http_failure 400 (JObj [(''message'', JObj [(''toString'', JNum (Finite 1))])]))))
     sample_client sample_request =
     ([Post ''/nac/api/v1/pg/orders/create-checkout''
         [(''amount'', JNum (Finite 100)),
          (''currency'', JStr ''OMR''),
          (''uiMode'', JStr ''checkout''),
          (''redirectType'', JStr ''redirect''),
          (''phone'', JStr ''+96891234567''),
          (''email'', JStr ''a@b.com''),
          (''name'', JStr ''A'')]],
      Inl (Thrown_TypeError Not_primitive))"
proof -
  define body where "body = JObj [(''message'', JObj [(''toString'', JNum (Finite 1))])]"
  have msg: "js_String sample_number (coalesce (opt_prop body ''message'') d) = None" for d
    by (simp add: body_def opt_prop_def get_prop_def coalesce_def)
  have one: "fromAxiosError sample_number (http_failure 400 body) = Inl Not_primitive"
    by (simp add: fromAxiosError_def http_failure_def Let_def msg)
  have two: "fromAxiosError sample_number (http_failure 500 body) = Inl Not_primitive"
    by (simp add: fromAxiosError_def http_failure_def Let_def msg)
  have three: "createCheckout (sample_runtime (Inl (http_failure 400 body)))
     sample_client sample_request =
     ([Post ''/nac/api/v1/pg/orders/create-checkout''
         [(''amount'', JNum (Finite 100)),
          (''currency'', JStr ''OMR''),
          (''uiMode'', JStr ''checkout''),
          (''redirectType'', JStr ''redirect''),
          (''phone'', JStr ''+96891234567''),
          (''email'', JStr ''a@b.com''),
          (''name'', JStr ''A'')]],
      Inl (Thrown_TypeError Not_primitive))"
    by (simp add: createCheckout_def validateCheckoutRequest_def checkout_payload_def
        sample_request_def sample_customer_def sample_runtime_def catch_clause_def one Let_def)
  from one two three show ?thesis
    unfolding body_def by (intro conjI)
qed

text \<open>
  Wherever \<^verbatim>\<open>fromAxiosError\<close> returns, it returns what the decision tree says. It
  always returns when there is no response, and when the status is 401 or 403;
  on the other statuses it returns exactly when the message can be rendered. The
  error keeps the status code, the failure, and the body (a body that is
  \<^verbatim>\<open>null\<close> is kept as \<^verbatim>\<open>undefined\<close>). A timeout is recognised whether or not a
  request was sent.
\<close>

lemma fromAxiosError_no_response:
  assumes "ax_response error = None"
  shows "\<exists>e. fromAxiosError num error = Inr e
       \<and> code e =
           (if ax_code error = Some ''ECONNABORTED'' then TIMEOUT_ERROR
            else if ax_request error then NETWORK_ERROR
            else UNKNOWN_ERROR)
       \<and> statusCode e = None \<and> response e = None \<and> originalError e = Some error
       \<and> (ax_code error \<noteq> Some ''ECONNABORTED'' \<and> \<not> ax_request error \<longrightarrow>
            message e =
              (if ax_message error \<noteq> [] then ax_message error
               else ''An unknown error occurred''))"
  using assms
  by (simp add: fromAxiosError_def new_OMPayError_def details_def or_undefined_def)

lemma fromAxiosError_authentication:
  assumes "ax_response error = Some r" and "resp_status r = 401 \<or> resp_status r = 403"
  shows "\<exists>e. fromAxiosError num error = Inr e
       \<and> code e = AUTHENTICATION_ERROR
       \<and> statusCode e = Some (resp_status r)
       \<and> response e = or_undefined (Some (resp_data r))
       \<and> originalError e = Some error"
  using assms by (auto simp: fromAxiosError_def new_OMPayError_def Let_def)

lemma fromAxiosError_validation:
  assumes "ax_response error = Some r" and "resp_status r = 400 \<or> resp_status r = 422"
  shows "fromAxiosError num error =
    (case js_String num
            (coalesce (opt_prop (resp_data r) ''message'') (JStr ''Validation error occurred'')) of
       None \<Rightarrow> Inl Not_primitive
     | Some m \<Rightarrow>
         Inr (new_OMPayError
           \<lparr> code = VALIDATION_ERROR, message = m, statusCode = Some (resp_status r),
             originalError = Some error, response = Some (resp_data r) \<rparr>))"
  using assms by (auto simp: fromAxiosError_def Let_def)

lemma fromAxiosError_api:
  assumes "ax_response error = Some r"
    and "resp_status r \<noteq> 401" and "resp_status r \<noteq> 403"
    and "resp_status r \<noteq> 400" and "resp_status r \<noteq> 422"
  shows "fromAxiosError num error =
    (case js_String num
            (coalesce (opt_prop (resp_data r) ''message'')
               (JStr (''API error: '' @ num (Finite (of_int (resp_status r)))))) of
       None \<Rightarrow> Inl Not_primitive
     | Some m \<Rightarrow>
         Inr (new_OMPayError
           \<lparr> code = API_ERROR, message = m, statusCode = Some (resp_status r),
             originalError = Some error, response = Some (resp_data r) \<rparr>))"
  using assms by (simp add: fromAxiosError_def Let_def)

lemma fromAxiosError_returns:
  assumes "fromAxiosError num error = Inr e"
  shows "code e =
    (case ax_response error of
       Some r \<Rightarrow>
         if resp_status r = 401 \<or> resp_status r = 403 then AUTHENTICATION_ERROR
         else if resp_status r = 400 \<or> resp_status r = 422 then VALIDATION_ERROR
         else API_ERROR
     | None \<Rightarrow>
         if ax_code error = Some ''ECONNABORTED'' then TIMEOUT_ERROR
         else if ax_request error then NETWORK_ERROR
         else UNKNOWN_ERROR)"
    and "originalError e = Some error"
    and "\<And>r. ax_response error = Some r \<Longrightarrow>
          statusCode e = Some (resp_status r) \<and> response e = or_undefined (Some (resp_data r))"
  using assms
  by (auto simp: fromAxiosError_def new_OMPayError_def details_def Let_def
      split: option.splits if_splits)

lemma fromAxiosError_examples:
  "map_sum id code (fromAxiosError sample_number (http_failure 401 JNull)) =
     Inr AUTHENTICATION_ERROR"
  "map_sum id code (fromAxiosError sample_number (http_failure 403 (JStr ''Forbidden''))) =
     Inr AUTHENTICATION_ERROR"
  "map_sum id code (fromAxiosError sample_number (http_failure 400 (JObj []))) =
     Inr VALIDATION_ERROR"
  "map_sum id code (fromAxiosError sample_number (http_failure 422 (JStr []))) =
     Inr VALIDATION_ERROR"
  "map_sum id message (fromAxiosError sample_number
     (http_failure 404 (JObj [(''message'', JStr ''no such order'')]))) = Inr ''no such order''"
  "map_sum id message (fromAxiosError sample_number (http_failure 500 JUndefined)) =
     Inr ''API error: 500''"
  "map_sum id response (fromAxiosError sample_number (http_failure 500 JNull)) = Inr None"
  "map_sum id code (fromAxiosError sample_number timeout_failure) = Inr TIMEOUT_ERROR"
  "map_sum id code (fromAxiosError sample_number network_failure) = Inr NETWORK_ERROR"
  "map_sum id code (fromAxiosError sample_number (TypeError ''boom'')) = Inr UNKNOWN_ERROR"
  "map_sum id message (fromAxiosError sample_number (TypeError [])) =
     Inr ''An unknown error occurred''"
  by (simp_all add: fromAxiosError_def http_failure_def timeout_failure_def network_failure_def
      TypeError_def new_OMPayError_def details_def or_undefined_def opt_prop_def get_prop_def
      coalesce_def sample_number_def Let_def)

text \<open>
  Both operations hand the failure of their one call to the \<^verbatim>\<open>catch\<close> clause.
\<close>

lemma createCheckout_failed_call:
  assumes "validateCheckoutRequest request = Inr c"
    and "axios_send rt (httpClient this)
           (Post ''/nac/api/v1/pg/orders/create-checkout'' (checkout_payload request c)) =
         Inl error"
  shows "createCheckout rt this request =
    ([Post ''/nac/api/v1/pg/orders/create-checkout'' (checkout_payload request c)],
     Inl (catch_clause rt error))"
  using assms by (simp add: createCheckout_def Let_def)

lemma checkStatus_failed_call:
  assumes "oid \<noteq> []"
    and "axios_send rt (httpClient this)
           (Get ''/nac/api/v1/pg/orders/check-status'' [(''orderId'', JStr oid)]) = Inl error"
  shows "checkStatus rt this (JStr oid) =
    ([Get ''/nac/api/v1/pg/orders/check-status'' [(''orderId'', JStr oid)]],
     Inl (catch_clause rt error))"
  using assms by (simp add: checkStatus_def Let_def)

subsection \<open>createCheckout\<close>

text \<open>
  Claim C5. A checkout request whose amount is not a number or is at most zero,
  or whose currency is empty or not a string, or whose customer object is absent,
  or one of whose customer fields \<^verbatim>\<open>phone\<close>, \<^verbatim>\<open>email\<close>, \<^verbatim>\<open>name\<close> is empty, makes
  \<^verbatim>\<open>createCheckout\<close> throw a \<open>VALIDATION_ERROR\<close> with no call sent. The checks
  run in that order: the error is that of the first check that fails, whatever
  the later fields are.
\<close>

theorem createCheckout_validation_order:
  "(js_typeof (amount request) \<noteq> ''number'' \<or> number_le_zero (amount request) \<longrightarrow>
      createCheckout rt this request =
        ([], Inl (Thrown_OMPayError (new_OMPayError
                    (details VALIDATION_ERROR ''amount must be a positive number'')))))
   \<and> (\<not> (js_typeof (amount request) \<noteq> ''number'' \<or> number_le_zero (amount request))
        \<and> (\<not> truthy (currency request) \<or> js_typeof (currency request) \<noteq> ''string'') \<longrightarrow>
      createCheckout rt this request =
        ([], Inl (Thrown_OMPayError (new_OMPayError
                    (details VALIDATION_ERROR ''currency is required and must be a string'')))))
   \<and> (\<not> (js_typeof (amount request) \<noteq> ''number'' \<or> number_le_zero (amount request))
        \<and> \<not> (\<not> truthy (currency request) \<or> js_typeof (currency request) \<noteq> ''string'')
        \<and> customer request = None \<longrightarrow>
      createCheckout rt this request =
        ([], Inl (Thrown_OMPayError (new_OMPayError
                    (details VALIDATION_ERROR ''customer information is required'')))))
   \<and> (\<not> (js_typeof (amount request) \<noteq> ''number'' \<or> number_le_zero (amount request))
        \<and> \<not> (\<not> truthy (currency request) \<or> js_typeof (currency request) \<noteq> ''string'')
        \<and> customer request = Some c
        \<and> (\<not> truthy (phone c) \<or> \<not> truthy (email c) \<or> \<not> truthy (name c)) \<longrightarrow>
      createCheckout rt this request =
        ([], Inl (Thrown_OMPayError (new_OMPayError
                    (details VALIDATION_ERROR
                       ''customer phone, email, and name are required'')))))
   \<and> (js_typeof (amount request) \<noteq> ''number'' \<or> number_le_zero (amount request)
        \<or> \<not> truthy (currency request) \<or> js_typeof (currency request) \<noteq> ''string''
        \<or> customer request = None
        \<or> (\<exists>cu. customer request = Some cu
              \<and> (\<not> truthy (phone cu) \<or> \<not> truthy (email cu) \<or> \<not> truthy (name cu))) \<longrightarrow>
      (\<exists>e. createCheckout rt this request = ([], Inl (Thrown_OMPayError e))
              \<and> code e = VALIDATION_ERROR))"
proof (intro conjI impI)
  assume "js_typeof (amount request) \<noteq> ''number'' \<or> number_le_zero (amount request)"
  then have "validateCheckoutRequest request =
      Inl (new_OMPayError (details VALIDATION_ERROR ''amount must be a positive number''))"
    by (simp add: validateCheckoutRequest_def)
  then show "createCheckout rt this request =
      ([], Inl (Thrown_OMPayError (new_OMPayError (details VALIDATION_ERROR ''amount must be a positive number''))))"
    by (rule createCheckout_invalid)
next
  assume "\<not> (js_typeof (amount request) \<noteq> ''number'' \<or> number_le_zero (amount request))
      \<and> (\<not> truthy (currency request) \<or> js_typeof (currency request) \<noteq> ''string'')"
  then have "validateCheckoutRequest request =
      Inl (new_OMPayError
             (details VALIDATION_ERROR ''currency is required and must be a string''))"
    by (simp add: validateCheckoutRequest_def)
  then show "createCheckout rt this request =
      ([], Inl (Thrown_OMPayError (new_OMPayError
                  (details VALIDATION_ERROR ''currency is required and must be a string''))))"
    by (rule createCheckout_invalid)
next
  assume "\<not> (js_typeof (amount request) \<noteq> ''number'' \<or> number_le_zero (amount request))
      \<and> \<not> (\<not> truthy (currency request) \<or> js_typeof (currency request) \<noteq> ''string'')
      \<and> customer request = None"
  then have "validateCheckoutRequest request =
      Inl (new_OMPayError (details VALIDATION_ERROR ''customer information is required''))"
    by (simp add: validateCheckoutRequest_def)
  then show "createCheckout rt this request =
      ([], Inl (Thrown_OMPayError (new_OMPayError (details VALIDATION_ERROR ''customer information is required''))))"
    by (rule createCheckout_invalid)
next
  assume "\<not> (js_typeof (amount request) \<noteq> ''number'' \<or> number_le_zero (amount request))
      \<and> \<not> (\<not> truthy (currency request) \<or> js_typeof (currency request) \<noteq> ''string'')
      \<and> customer request = Some c
      \<and> (\<not> truthy (phone c) \<or> \<not> truthy (email c) \<or> \<not> truthy (name c))"
  then have "validateCheckoutRequest request =
      Inl (new_OMPayError
             (details VALIDATION_ERROR ''customer phone, email, and name are required''))"
    by (auto simp: validateCheckoutRequest_def)
  then show "createCheckout rt this request =
      ([], Inl (Thrown_OMPayError (new_OMPayError
                  (details VALIDATION_ERROR ''customer phone, email, and name are required''))))"
    by (rule createCheckout_invalid)
next
  assume "js_typeof (amount request) \<noteq> ''number'' \<or> number_le_zero (amount request)
      \<or> \<not> truthy (currency request) \<or> js_typeof (currency request) \<noteq> ''string''
      \<or> customer request = None
      \<or> (\<exists>cu. customer request = Some cu
            \<and> (\<not> truthy (phone cu) \<or> \<not> truthy (email cu) \<or> \<not> truthy (name cu)))"
  then have "\<exists>e. validateCheckoutRequest request = Inl e \<and> code e = VALIDATION_ERROR"
    by (auto simp: validateCheckoutRequest_def)
  then show "\<exists>e. createCheckout rt this request = ([], Inl (Thrown_OMPayError e))
              \<and> code e = VALIDATION_ERROR"
    by (auto dest: createCheckout_invalid)
qed

theorem createCheckout_validation_order_witness:
  "createCheckout (sample_runtime (ok_response [])) sample_client
       (sample_request\<lparr>amount := JNum (Finite 0), currency := JStr [], customer := None\<rparr>) =
     ([], Inl (Thrown_OMPayError (new_OMPayError
                 (details VALIDATION_ERROR ''amount must be a positive number''))))
   \<and> createCheckout (sample_runtime (ok_response [])) sample_client
       (sample_request\<lparr>amount := JStr ''100''\<rparr>) =
     ([], Inl (Thrown_OMPayError (new_OMPayError
                 (details VALIDATION_ERROR ''amount must be a positive number''))))
   \<and> createCheckout (sample_runtime (ok_response [])) sample_client
       (sample_request\<lparr>currency := JStr [], customer := None\<rparr>) =
     ([], Inl (Thrown_OMPayError (new_OMPayError
                 (details VALIDATION_ERROR ''currency is required and must be a string''))))
   \<and> createCheckout (sample_runtime (ok_response [])) sample_client
       (sample_request\<lparr>customer := None\<rparr>) =
     ([], Inl (Thrown_OMPayError (new_OMPayError
                 (details VALIDATION_ERROR ''customer information is required''))))
   \<and> createCheckout (sample_runtime (ok_response [])) sample_client
       (sample_request\<lparr>customer := Some (sample_customer\<lparr>email := JStr []\<rparr>)\<rparr>) =
     ([], Inl (Thrown_OMPayError (new_OMPayError
                 (details VALIDATION_ERROR
                    ''customer phone, email, and name are required''))))"
proof -
  let ?rt = "sample_runtime (ok_response [])"
  have one: "createCheckout ?rt sample_client
       (sample_request\<lparr>amount := JNum (Finite 0), currency := JStr [], customer := None\<rparr>) =
     ([], Inl (Thrown_OMPayError (new_OMPayError
                 (details VALIDATION_ERROR ''amount must be a positive number''))))"
    using createCheckout_validation_order
      [of "sample_request\<lparr>amount := JNum (Finite 0), currency := JStr [], customer := None\<rparr>"
          ?rt sample_client, THEN conjunct1]
    by (simp add: sample_request_def)
  have two: "createCheckout ?rt sample_client (sample_request\<lparr>amount := JStr ''100''\<rparr>) =
     ([], Inl (Thrown_OMPayError (new_OMPayError
                 (details VALIDATION_ERROR ''amount must be a positive number''))))"
    using createCheckout_validation_order
      [of "sample_request\<lparr>amount := JStr ''100''\<rparr>" ?rt sample_client, THEN conjunct1]
    by (simp add: sample_request_def)
  have three: "createCheckout ?rt sample_client
       (sample_request\<lparr>currency := JStr [], customer := None\<rparr>) =
     ([], Inl (Thrown_OMPayError (new_OMPayError
                 (details VALIDATION_ERROR ''currency is required and must be a string''))))"
    using createCheckout_validation_order
      [of "sample_request\<lparr>currency := JStr [], customer := None\<rparr>" ?rt sample_client,
        THEN conjunct2, THEN conjunct1]
    by (simp add: sample_request_def)
  have four: "createCheckout ?rt sample_client (sample_request\<lparr>customer := None\<rparr>) =
     ([], Inl (Thrown_OMPayError (new_OMPayError
                 (details VALIDATION_ERROR ''customer information is required''))))"
    using createCheckout_validation_order
      [of "sample_request\<lparr>customer := None\<rparr>" ?rt sample_client,
        THEN conjunct2, THEN conjunct2, THEN conjunct1]
    by (simp add: sample_request_def)
  have five: "createCheckout ?rt sample_client
       (sample_request\<lparr>customer := Some (sample_customer\<lparr>email := JStr []\<rparr>)\<rparr>) =
     ([], Inl (Thrown_OMPayError (new_OMPayError
                 (details VALIDATION_ERROR
                    ''customer phone, email, and name are required''))))"
    using createCheckout_validation_order
      [of "sample_request\<lparr>customer := Some (sample_customer\<lparr>email := JStr []\<rparr>)\<rparr>"
          ?rt sample_client "sample_customer\<lparr>email := JStr []\<rparr>",
        THEN conjunct2, THEN conjunct2, THEN conjunct2, THEN conjunct1]
    by (simp add: sample_request_def sample_customer_def)
  from one two three four five show ?thesis
    by (intro conjI)
qed

text \<open>
  Claim C6, as stated, says that the payload has \<^verbatim>\<open>orderReference\<close> if and only
  if the request provides it. The key is added by
  \<^verbatim>\<open>...(request.orderReference && { orderReference: request.orderReference })\<close>,
  which tests truthiness: a request that provides the empty string as its order
  reference is valid, and the payload sent has no \<^verbatim>\<open>orderReference\<close>.
\<close>

theorem createCheckout_empty_orderReference:
  "orderReference (sample_request\<lparr>orderReference := Some []\<rparr>) = Some []
   \<and> fst (createCheckout (sample_runtime (ok_response [])) sample_client
            (sample_request\<lparr>orderReference := Some []\<rparr>)) =
       [Post ''/nac/api/v1/pg/orders/create-checkout''
          [(''amount'', JNum (Finite 100)),
           (''currency'', JStr ''OMR''),
           (''uiMode'', JStr ''checkout''),
           (''redirectType'', JStr ''redirect''),
           (''phone'', JStr ''+96891234567''),
           (''email'', JStr ''a@b.com''),
           (''name'', JStr ''A'')]]"
  by (simp add: createCheckout_def validateCheckoutRequest_def checkout_payload_def
      sample_request_def sample_customer_def Let_def)

lemma checkout_payload_keys:
  "map fst (checkout_payload request c) =
     [''amount'', ''currency'', ''uiMode'', ''redirectType'', ''phone'', ''email'', ''name'']
     @ (if orderReference request = None \<or> orderReference request = Some [] then []
        else [''orderReference''])
     @ (if metadata request = None then [] else [''metadata''])"
  by (simp add: checkout_payload_def split: option.splits)

lemma validateCheckoutRequest_customer:
  "validateCheckoutRequest request = Inr c \<Longrightarrow> customer request = Some c"
  by (auto simp: validateCheckoutRequest_def split: if_splits option.splits)

lemma validateCheckoutRequest_valid_iff:
  "validateCheckoutRequest request = Inr c \<longleftrightarrow>
     (\<exists>n. amount request = JNum n \<and> \<not> num_le_zero n)
     \<and> (\<exists>s. currency request = JStr s \<and> s \<noteq> [])
     \<and> customer request = Some c
     \<and> truthy (phone c) \<and> truthy (email c) \<and> truthy (name c)"
  by (cases "amount request"; cases "currency request"; cases "customer request")
    (auto simp: validateCheckoutRequest_def)

text \<open>
  Claim C6, amended. For every valid checkout request, \<^verbatim>\<open>createCheckout\<close> sends
  one POST to the order-creation path, whose payload is flat (the customer's
  fields are top-level keys, and no key is repeated) and has exactly the keys
  \<^verbatim>\<open>amount\<close>, \<^verbatim>\<open>currency\<close>, \<^verbatim>\<open>uiMode\<close>, \<^verbatim>\<open>redirectType\<close>, \<^verbatim>\<open>phone\<close>, \<^verbatim>\<open>email\<close>
  and \<^verbatim>\<open>name\<close>, plus \<^verbatim>\<open>orderReference\<close> if and only if the request provides a
  non-empty one, plus \<^verbatim>\<open>metadata\<close> if and only if the request provides it. The
  values are those of the request, \<^verbatim>\<open>uiMode\<close> being \<open>checkout\<close> and
  \<^verbatim>\<open>redirectType\<close> being \<open>redirect\<close> when the request leaves them out.
\<close>

theorem createCheckout_payload:
  assumes valid: "validateCheckoutRequest request = Inr c"
  shows "fst (createCheckout rt this request) =
           [Post ''/nac/api/v1/pg/orders/create-checkout'' (checkout_payload request c)]
       \<and> customer request = Some c
       \<and> distinct (map fst (checkout_payload request c))
       \<and> set (map fst (checkout_payload request c)) =
           {''amount'', ''currency'', ''uiMode'', ''redirectType'', ''phone'', ''email'', ''name''}
           \<union> (if orderReference request = None \<or> orderReference request = Some [] then {}
              else {''orderReference''})
           \<union> (if metadata request = None then {} else {''metadata''})
       \<and> get_prop (checkout_payload request c) ''amount'' = amount request
       \<and> get_prop (checkout_payload request c) ''currency'' = currency request
       \<and> get_prop (checkout_payload request c) ''uiMode'' =
           JStr (case uiMode request of None \<Rightarrow> ''checkout'' | Some m \<Rightarrow> m)
       \<and> get_prop (checkout_payload request c) ''redirectType'' =
           JStr (case redirectType request of None \<Rightarrow> ''redirect'' | Some t \<Rightarrow> t)
       \<and> get_prop (checkout_payload request c) ''phone'' = phone c
       \<and> get_prop (checkout_payload request c) ''email'' = email c
       \<and> get_prop (checkout_payload request c) ''name'' = name c
       \<and> (\<forall>r. orderReference request = Some r \<and> r \<noteq> [] \<longrightarrow>
            get_prop (checkout_payload request c) ''orderReference'' = JStr r)
       \<and> (\<forall>m. metadata request = Some m \<longrightarrow>
            get_prop (checkout_payload request c) ''metadata'' = JObj m)"
proof -
  have sent: "fst (createCheckout rt this request) =
      [Post ''/nac/api/v1/pg/orders/create-checkout'' (checkout_payload request c)]"
    using valid by (simp add: createCheckout_def Let_def)
  have cust: "customer request = Some c"
    using valid by (rule validateCheckoutRequest_customer)
  have dist: "distinct (map fst (checkout_payload request c))"
    by (simp add: checkout_payload_keys)
  have keys: "set (map fst (checkout_payload request c)) =
      {''amount'', ''currency'', ''uiMode'', ''redirectType'', ''phone'', ''email'', ''name''}
      \<union> (if orderReference request = None \<or> orderReference request = Some [] then {}
         else {''orderReference''})
      \<union> (if metadata request = None then {} else {''metadata''})"
    by (simp only: checkout_payload_keys) simp
  have fixed: "get_prop (checkout_payload request c) ''amount'' = amount request"
    "get_prop (checkout_payload request c) ''currency'' = currency request"
    "get_prop (checkout_payload request c) ''uiMode'' =
       JStr (case uiMode request of None \<Rightarrow> ''checkout'' | Some m \<Rightarrow> m)"
    "get_prop (checkout_payload request c) ''redirectType'' =
       JStr (case redirectType request of None \<Rightarrow> ''redirect'' | Some t \<Rightarrow> t)"
    "get_prop (checkout_payload request c) ''phone'' = phone c"
    "get_prop (checkout_payload request c) ''email'' = email c"
    "get_prop (checkout_payload request c) ''name'' = name c"
    by (simp_all add: get_prop_def checkout_payload_def)
  have ref: "get_prop (checkout_payload request c) ''orderReference'' = JStr r"
    if "orderReference request = Some r \<and> r \<noteq> []" for r
    using that by (simp add: get_prop_def checkout_payload_def)
  have meta: "get_prop (checkout_payload request c) ''metadata'' = JObj m"
    if "metadata request = Some m" for m
    using that by (simp add: get_prop_def checkout_payload_def split: option.splits)
  from sent cust dist keys fixed ref meta show ?thesis
    by (intro conjI allI impI)
qed

theorem createCheckout_payload_witness:
  "fst (createCheckout (sample_runtime (ok_response [])) sample_client
          (sample_request\<lparr>redirectType := Some ''post'',
             orderReference := Some ''ref-1'', metadata := Some [(''cart'', JStr ''42'')]\<rparr>)) =
     [Post ''/nac/api/v1/pg/orders/create-checkout''
        [(''amount'', JNum (Finite 100)),
         (''currency'', JStr ''OMR''),
         (''uiMode'', JStr ''checkout''),
         (''redirectType'', JStr ''post''),
         (''phone'', JStr ''+96891234567''),
         (''email'', JStr ''a@b.com''),
         (''name'', JStr ''A''),
         (''orderReference'', JStr ''ref-1''),
         (''metadata'', JObj [(''cart'', JStr ''42'')])]]
   \<and> fst (createCheckout (sample_runtime (ok_response [])) sample_client sample_request) =
     [Post ''/nac/api/v1/pg/orders/create-checkout''
        [(''amount'', JNum (Finite 100)),
         (''currency'', JStr ''OMR''),
         (''uiMode'', JStr ''checkout''),
         (''redirectType'', JStr ''redirect''),
         (''phone'', JStr ''+96891234567''),
         (''email'', JStr ''a@b.com''),
         (''name'', JStr ''A'')]]"
proof -
  define request where "request = sample_request\<lparr>redirectType := Some ''post'',
    orderReference := Some ''ref-1'', metadata := Some [(''cart'', JStr ''42'')]\<rparr>"
  have valid: "validateCheckoutRequest request = Inr sample_customer"
    "validateCheckoutRequest sample_request = Inr sample_customer"
    by (simp_all add: request_def validateCheckoutRequest_def sample_request_def
        sample_customer_def)
  have full: "fst (createCheckout (sample_runtime (ok_response [])) sample_client request) =
     [Post ''/nac/api/v1/pg/orders/create-checkout''
        [(''amount'', JNum (Finite 100)),
         (''currency'', JStr ''OMR''),
         (''uiMode'', JStr ''checkout''),
         (''redirectType'', JStr ''post''),
         (''phone'', JStr ''+96891234567''),
         (''email'', JStr ''a@b.com''),
         (''name'', JStr ''A''),
         (''orderReference'', JStr ''ref-1''),
         (''metadata'', JObj [(''cart'', JStr ''42'')])]]"
    using createCheckout_payload [OF valid(1), THEN conjunct1]
    by (simp add: request_def checkout_payload_def sample_request_def sample_customer_def)
  have plain: "fst (createCheckout (sample_runtime (ok_response [])) sample_client
        sample_request) =
     [Post ''/nac/api/v1/pg/orders/create-checkout''
        [(''amount'', JNum (Finite 100)),
         (''currency'', JStr ''OMR''),
         (''uiMode'', JStr ''checkout''),
         (''redirectType'', JStr ''redirect''),
         (''phone'', JStr ''+96891234567''),
         (''email'', JStr ''a@b.com''),
         (''name'', JStr ''A'')]]"
    using createCheckout_payload [OF valid(2), THEN conjunct1]
    by (simp add: checkout_payload_def sample_request_def sample_customer_def)
  from full plain show ?thesis
    unfolding request_def by (intro conjI)
qed

text \<open>
  The scenario of the specification: against a gateway that answers
  \<^verbatim>\<open>{orderId: "o1", status: "pending"}\<close>, the sample request resolves with that
  order id and status, no checkout URL, and the body as data.
\<close>

lemma createCheckout_example:
  "snd (createCheckout
          (sample_runtime (ok_response [(''orderId'', JStr ''o1''), (''status'', JStr ''pending'')]))
          sample_client sample_request) =
     Inr \<lparr> cc_orderId = ''o1'', checkoutUrl = JUndefined, cc_status = ''pending'',
           cc_data = JObj [(''orderId'', JStr ''o1''), (''status'', JStr ''pending'')] \<rparr>"
  by (simp add: createCheckout_def validateCheckoutRequest_def checkout_response_def
      sample_request_def sample_customer_def sample_runtime_def ok_response_def ok_body_def
      opt_prop_def get_prop_def coalesce_def Let_def)

subsection \<open>checkStatus\<close>

text \<open>
  Claim C4, as stated, says that for every 2xx body \<^verbatim>\<open>checkStatus\<close> returns a
  result whose status is one of \<open>success\<close>, \<open>failed\<close>, \<open>pending\<close>, \<open>cancelled\<close>. The
  field is assigned by \<^verbatim>\<open>data["status"] as OrderStatusResponse["status"]\<close>, a type
  assertion with no check at run time: a body whose status is \<open>refunded\<close> gives a
  result whose status is \<open>refunded\<close>. And not every 2xx body gives a result: on
  the body \<^verbatim>\<open>null\<close> the read of \<^verbatim>\<open>data["orderId"]\<close> throws, and on an \<^verbatim>\<open>orderId\<close>
  that is an object with a \<^verbatim>\<open>toString\<close> key of its own \<^verbatim>\<open>String(...)\<close> throws; both
  are inside the \<^verbatim>\<open>try\<close> block, and \<^verbatim>\<open>checkStatus\<close> throws an \<open>UNKNOWN_ERROR\<close>.
\<close>

theorem checkStatus_unlisted_status:
  "checkStatus
     (sample_runtime (ok_response [(''orderId'', JStr ''o1''), (''status'', JStr ''refunded'')]))
     sample_client (JStr ''o1'') =
     ([Get ''/nac/api/v1/pg/orders/check-status'' [(''orderId'', JStr ''o1'')]],
      Inr \<lparr> os_orderId = ''o1'',
            os_status = JStr ''refunded'',
            os_paymentId = JUndefined,
            os_amount = JUndefined,
            os_currency = JUndefined,
            paymentDetails = JUndefined,
            createdAt = JUndefined,
            updatedAt = JUndefined,
            os_data = JObj [(''orderId'', JStr ''o1''), (''status'', JStr ''refunded'')] \<rparr>)
   \<and> JStr ''refunded'' \<notin> set PaymentStatus
   \<and> snd (checkStatus (sample_runtime (ok_body JNull)) sample_client (JStr ''o1'')) =
     Inl (Thrown_OMPayError
            (new_OMPayError
               ((details UNKNOWN_ERROR ''Cannot read properties of null'')
                  \<lparr> originalError := Some (TypeError ''Cannot read properties of null'') \<rparr>)))
   \<and> snd (checkStatus
            (sample_runtime
               (ok_response
                  [(''orderId'', JObj [(''toString'', JNum (Finite 1))]),
                   (''status'', JStr ''pending'')]))
            sample_client (JStr ''o1'')) =
     Inl (Thrown_OMPayError
            (new_OMPayError
               ((details UNKNOWN_ERROR ''Cannot convert object to primitive value'')
                  \<lparr> originalError :=
                      Some (TypeError ''Cannot convert object to primitive value'') \<rparr>)))"
proof -
  have one: "checkStatus
     (sample_runtime (ok_response [(''orderId'', JStr ''o1''), (''status'', JStr ''refunded'')]))
     sample_client (JStr ''o1'') =
     ([Get ''/nac/api/v1/pg/orders/check-status'' [(''orderId'', JStr ''o1'')]],
      Inr \<lparr> os_orderId = ''o1'',
            os_status = JStr ''refunded'',
            os_paymentId = JUndefined,
            os_amount = JUndefined,
            os_currency = JUndefined,
            paymentDetails = JUndefined,
            createdAt = JUndefined,
            updatedAt = JUndefined,
            os_data = JObj [(''orderId'', JStr ''o1''), (''status'', JStr ''refunded'')] \<rparr>)"
    by (simp add: checkStatus_def status_response_def sample_runtime_def ok_response_def
        ok_body_def opt_prop_def get_prop_def coalesce_def Let_def)
  have two: "JStr ''refunded'' \<notin> set PaymentStatus"
    by (simp add: PaymentStatus_def)
  have three: "snd (checkStatus (sample_runtime (ok_body JNull)) sample_client (JStr ''o1'')) =
     Inl (Thrown_OMPayError
            (new_OMPayError
               ((details UNKNOWN_ERROR ''Cannot read properties of null'')
                  \<lparr> originalError := Some (TypeError ''Cannot read properties of null'') \<rparr>)))"
    by (simp add: checkStatus_def status_response_def sample_runtime_def ok_body_def
        catch_clause_def fromAxiosError_def TypeError_def Let_def)
  have four: "snd (checkStatus
            (sample_runtime
               (ok_response
                  [(''orderId'', JObj [(''toString'', JNum (Finite 1))]),
                   (''status'', JStr ''pending'')]))
            sample_client (JStr ''o1'')) =
     Inl (Thrown_OMPayError
            (new_OMPayError
               ((details UNKNOWN_ERROR ''Cannot convert object to primitive value'')
                  \<lparr> originalError :=
                      Some (TypeError ''Cannot convert object to primitive value'') \<rparr>)))"
    by (simp add: checkStatus_def status_response_def sample_runtime_def ok_response_def
        ok_body_def get_prop_def coalesce_def catch_clause_def fromAxiosError_def TypeError_def
        Let_def)
  from one two three four show ?thesis
    by (intro conjI)
qed

lemma status_response_returns:
  assumes "\<not> nullish d"
    and "js_String num (coalesce (opt_prop d ''orderId'') oid) = Some s"
  shows "status_response num oid d =
    Inr \<lparr> os_orderId = s,
          os_status = opt_prop d ''status'',
          os_paymentId = opt_prop d ''paymentId'',
          os_amount = opt_prop d ''amount'',
          os_currency = opt_prop d ''currency'',
          paymentDetails = opt_prop d ''paymentDetails'',
          createdAt = opt_prop d ''createdAt'',
          updatedAt = opt_prop d ''updatedAt'',
          os_data = d \<rparr>"
  using assms by (cases d) (simp_all add: status_response_def opt_prop_def)

text \<open>
  Claim C4, amended. For every non-empty order id and every response the call
  resolves with (a 2xx response) whose body is not \<^verbatim>\<open>null\<close> or \<^verbatim>\<open>undefined\<close> and
  whose \<^verbatim>\<open>orderId\<close>, when it has one, can be converted to a string,
  \<^verbatim>\<open>checkStatus\<close> sends one GET and returns a result whose \<^verbatim>\<open>orderId\<close> is the
  body's \<^verbatim>\<open>orderId\<close> as a string, or the input order id when the body has none or
  has \<^verbatim>\<open>null\<close>, whose status is the body's status unchanged, so that it is one of
  the four enumerated values exactly when the body's is, and whose data is the
  body. The body may be any value: an object, or the string of an empty or
  non-JSON answer, which has no \<^verbatim>\<open>orderId\<close> and no status.
\<close>

theorem checkStatus_result:
  assumes oid: "oid \<noteq> []"
    and resolved: "axios_send rt (httpClient this)
        (Get ''/nac/api/v1/pg/orders/check-status'' [(''orderId'', JStr oid)]) = Inr r"
    and body: "\<not> nullish (resp_data r)"
    and printable: "nullish (opt_prop (resp_data r) ''orderId'')
        \<or> js_String (Number_toString rt) (opt_prop (resp_data r) ''orderId'') \<noteq> None"
  shows "\<exists>res. checkStatus rt this (JStr oid) =
           ([Get ''/nac/api/v1/pg/orders/check-status'' [(''orderId'', JStr oid)]], Inr res)
       \<and> (if nullish (opt_prop (resp_data r) ''orderId'') then os_orderId res = oid
           else js_String (Number_toString rt) (opt_prop (resp_data r) ''orderId'') =
                  Some (os_orderId res))
       \<and> os_status res = opt_prop (resp_data r) ''status''
       \<and> (os_status res \<in> set PaymentStatus) =
           (opt_prop (resp_data r) ''status'' \<in> set PaymentStatus)
       \<and> os_data res = resp_data r"
proof -
  have "\<exists>s. js_String (Number_toString rt)
      (coalesce (opt_prop (resp_data r) ''orderId'') (JStr oid)) = Some s"
    using printable
    by (cases "nullish (opt_prop (resp_data r) ''orderId'')") (auto simp: coalesce_def)
  then obtain s where s: "js_String (Number_toString rt)
      (coalesce (opt_prop (resp_data r) ''orderId'') (JStr oid)) = Some s"
    by blast
  have "checkStatus rt this (JStr oid) =
      ([Get ''/nac/api/v1/pg/orders/check-status'' [(''orderId'', JStr oid)]],
       Inr \<lparr> os_orderId = s,
             os_status = opt_prop (resp_data r) ''status'',
             os_paymentId = opt_prop (resp_data r) ''paymentId'',
             os_amount = opt_prop (resp_data r) ''amount'',
             os_currency = opt_prop (resp_data r) ''currency'',
             paymentDetails = opt_prop (resp_data r) ''paymentDetails'',
             createdAt = opt_prop (resp_data r) ''createdAt'',
             updatedAt = opt_prop (resp_data r) ''updatedAt'',
             os_data = resp_data r \<rparr>)"
    using oid resolved status_response_returns [OF body s]
    by (simp add: checkStatus_def Let_def)
  moreover have "s = oid" if "nullish (opt_prop (resp_data r) ''orderId'')"
    using s that by (simp add: coalesce_def)
  moreover have "js_String (Number_toString rt) (opt_prop (resp_data r) ''orderId'') = Some s"
    if "\<not> nullish (opt_prop (resp_data r) ''orderId'')"
    using s that by (simp add: coalesce_def)
  ultimately show ?thesis
    by auto
qed

theorem checkStatus_result_witness:
  "fst (checkStatus
     (sample_runtime (ok_response [(''orderId'', JNum (Finite 500)), (''status'', JStr ''pending'')]))
     sample_client (JStr ''o1'')) =
     [Get ''/nac/api/v1/pg/orders/check-status'' [(''orderId'', JStr ''o1'')]]
   \<and> os_orderId (projr (snd (checkStatus
        (sample_runtime
           (ok_response [(''orderId'', JNum (Finite 500)), (''status'', JStr ''pending'')]))
        sample_client (JStr ''o1'')))) = ''500''
   \<and> os_status (projr (snd (checkStatus
        (sample_runtime
           (ok_response [(''orderId'', JNum (Finite 500)), (''status'', JStr ''pending'')]))
        sample_client (JStr ''o1'')))) = JStr ''pending''
   \<and> JStr ''pending'' \<in> set PaymentStatus
   \<and> os_orderId (projr (snd (checkStatus
        (sample_runtime (ok_response [(''status'', JStr ''success'')]))
        sample_client (JStr ''o1'')))) = ''o1''
   \<and> os_orderId (projr (snd (checkStatus
        (sample_runtime (ok_body (JStr []))) sample_client (JStr ''o1'')))) = ''o1''
   \<and> os_status (projr (snd (checkStatus
        (sample_runtime (ok_body (JStr []))) sample_client (JStr ''o1'')))) = JUndefined"
proof -
  let ?get = "Get ''/nac/api/v1/pg/orders/check-status'' [(''orderId'', JStr ''o1'')]"
  have send: "axios_send (sample_runtime (ok_body d)) (httpClient sample_client) ?get =
      Inr \<lparr>resp_status = 200, resp_data = d\<rparr>" for d
    by (simp add: sample_runtime_def ok_body_def)
  have num: "Number_toString (sample_runtime x) = sample_number" for x
    by (simp add: sample_runtime_def)
  have id: "''o1'' \<noteq> []"
    by simp
  define d1 where "d1 = JObj [(''orderId'', JNum (Finite 500)), (''status'', JStr ''pending'')]"
  have p1: "opt_prop d1 ''orderId'' = JNum (Finite 500)" "opt_prop d1 ''status'' = JStr ''pending''"
    "\<not> nullish d1"
    by (simp_all add: d1_def opt_prop_def get_prop_def)
  have "nullish (opt_prop (resp_data \<lparr>resp_status = 200, resp_data = d1\<rparr>) ''orderId'')
      \<or> js_String (Number_toString (sample_runtime (ok_body d1)))
          (opt_prop (resp_data \<lparr>resp_status = 200, resp_data = d1\<rparr>) ''orderId'') \<noteq> None"
    by (simp add: p1 num)
  from checkStatus_result [OF id send _ this]
  obtain res1 where r1: "checkStatus (sample_runtime (ok_body d1)) sample_client (JStr ''o1'') =
      ([?get], Inr res1)"
    and o1: "js_String sample_number (JNum (Finite 500)) = Some (os_orderId res1)"
    and s1: "os_status res1 = JStr ''pending''"
    by (simp add: p1 num) blast
  from r1 have one: "fst (checkStatus (sample_runtime (ok_body d1)) sample_client (JStr ''o1'')) =
      [?get]"
    by simp
  from r1 o1 have two: "os_orderId (projr (snd (checkStatus (sample_runtime (ok_body d1))
      sample_client (JStr ''o1'')))) = ''500''"
    by (simp add: sample_number_def)
  from r1 s1 have three: "os_status (projr (snd (checkStatus (sample_runtime (ok_body d1))
      sample_client (JStr ''o1'')))) = JStr ''pending''"
    by simp
  have four: "JStr ''pending'' \<in> set PaymentStatus"
    by (simp add: PaymentStatus_def)
  define d2 where "d2 = JObj [(''status'', JStr ''success'')]"
  have p2: "opt_prop d2 ''orderId'' = JUndefined" "\<not> nullish d2"
    by (simp_all add: d2_def opt_prop_def get_prop_def)
  have "nullish (opt_prop (resp_data \<lparr>resp_status = 200, resp_data = d2\<rparr>) ''orderId'')
      \<or> js_String (Number_toString (sample_runtime (ok_body d2)))
          (opt_prop (resp_data \<lparr>resp_status = 200, resp_data = d2\<rparr>) ''orderId'') \<noteq> None"
    by (simp add: p2)
  from checkStatus_result [OF id send _ this]
  obtain res2 where r2: "checkStatus (sample_runtime (ok_body d2)) sample_client (JStr ''o1'') =
      ([?get], Inr res2)"
    and o2: "os_orderId res2 = ''o1''"
    by (simp add: p2) blast
  from r2 o2 have five: "os_orderId (projr (snd (checkStatus (sample_runtime (ok_body d2))
      sample_client (JStr ''o1'')))) = ''o1''"
    by simp
  define d3 where "d3 = JStr []"
  have p3: "opt_prop d3 ''orderId'' = JUndefined" "opt_prop d3 ''status'' = JUndefined"
    "\<not> nullish d3"
    by (simp_all add: d3_def opt_prop_def)
  have "nullish (opt_prop (resp_data \<lparr>resp_status = 200, resp_data = d3\<rparr>) ''orderId'')
      \<or> js_String (Number_toString (sample_runtime (ok_body d3)))
          (opt_prop (resp_data \<lparr>resp_status = 200, resp_data = d3\<rparr>) ''orderId'') \<noteq> None"
    by (simp add: p3)
  from checkStatus_result [OF id send _ this]
  obtain res3 where r3: "checkStatus (sample_runtime (ok_body d3)) sample_client (JStr ''o1'') =
      ([?get], Inr res3)"
    and o3: "os_orderId res3 = ''o1''"
    and s3: "os_status res3 = JUndefined"
    by (simp add: p3) blast
  from r3 o3 have six: "os_orderId (projr (snd (checkStatus (sample_runtime (ok_body d3))
      sample_client (JStr ''o1'')))) = ''o1''"
    by simp
  from r3 s3 have seven: "os_status (projr (snd (checkStatus (sample_runtime (ok_body d3))
      sample_client (JStr ''o1'')))) = JUndefined"
    by simp
  from one two three four five six seven show ?thesis
    unfolding d1_def d2_def d3_def ok_response_def by (intro conjI)
qed

end
